theory Spec2Isabelle
  imports Complex_Main "HOL-Library.Word" "HOL-Library.AList" "HOL-Library.Log_Nat"
begin

unbundle bit_operations_syntax

section \<open>Python values, exceptions and the built-in operations the handlers use\<close>

text \<open>
  The two handlers of the repository (\<^verbatim>\<open>build-register/register_patient.py\<close> and
  \<^verbatim>\<open>build-identify/identify_patient.py\<close>) work on dynamically typed values: the event,
  the JSON body, and the responses of the two boto3 clients. A value is one of the Python
  types that can occur there. A \<^verbatim>\<open>dict\<close> is an association list in insertion order (its
  keys are strings in every place the handlers touch); a \<^verbatim>\<open>float\<close> is carried as the real
  number it stands for and never computed on, except in \<^verbatim>\<open>_now_ms\<close>, whose arithmetic is
  that of IEEE 754 doubles.
\<close>

type_synonym byte = "8 word"

datatype pyval =
    PNone
  | PBool bool
  | PInt int
  | PFloat real
  | PStr string
  | PBytes "byte list"
  | PList "pyval list"
  | PDict "(string \<times> pyval) list"

text \<open>
  An exception of class \<^verbatim>\<open>Exception\<close>, with the text \<^verbatim>\<open>str(e)\<close> gives for it.
  \<open>KeyError\<close> holds the \<^verbatim>\<open>repr\<close> of the missing key, which is what \<^verbatim>\<open>str\<close> of a
  \<^verbatim>\<open>KeyError\<close> prints. \<open>OtherError\<close> is any other exception a library function or a
  collaborator raises: its class name and its message.
\<close>

datatype exn =
    KeyError string
  | IndexError string
  | TypeError string
  | AttributeError string
  | ValueError string
  | BinasciiError string
  | OtherError string string

fun str_exn :: "exn \<Rightarrow> string" where
  "str_exn (KeyError k) = k"
| "str_exn (IndexError m) = m"
| "str_exn (TypeError m) = m"
| "str_exn (AttributeError m) = m"
| "str_exn (ValueError m) = m"
| "str_exn (BinasciiError m) = m"
| "str_exn (OtherError c m) = m"

fun type_name :: "pyval \<Rightarrow> string" where
  "type_name PNone = ''NoneType''"
| "type_name (PBool b) = ''bool''"
| "type_name (PInt i) = ''int''"
| "type_name (PFloat f) = ''float''"
| "type_name (PStr s) = ''str''"
| "type_name (PBytes b) = ''bytes''"
| "type_name (PList xs) = ''list''"
| "type_name (PDict d) = ''dict''"

definition quoted :: "string \<Rightarrow> string" where
  \<comment> \<open>\<^verbatim>\<open>repr\<close> of a string without quotes or escapes in it: the string between single quotes\<close>
  "quoted s = [CHR 0x27] @ s @ [CHR 0x27]"

fun truthy :: "pyval \<Rightarrow> bool" where
  \<comment> \<open>the truth value Python's \<^verbatim>\<open>not\<close> and \<^verbatim>\<open>or\<close> test\<close>
  "truthy PNone = False"
| "truthy (PBool b) = b"
| "truthy (PInt i) = (i \<noteq> 0)"
| "truthy (PFloat f) = (f \<noteq> 0)"
| "truthy (PStr s) = (s \<noteq> [])"
| "truthy (PBytes b) = (b \<noteq> [])"
| "truthy (PList xs) = (xs \<noteq> [])"
| "truthy (PDict d) = (d \<noteq> [])"

fun is_str :: "pyval \<Rightarrow> bool" where
  \<comment> \<open>\<^verbatim>\<open>isinstance(v, str)\<close>\<close>
  "is_str (PStr s) = True"
| "is_str v = False"

fun py_get :: "pyval \<Rightarrow> string \<Rightarrow> pyval \<Rightarrow> exn + pyval" where
  \<comment> \<open>\<^verbatim>\<open>obj.get(key, default)\<close>: only a dict has the method\<close>
  "py_get (PDict d) k dflt = (case map_of d k of Some v \<Rightarrow> Inr v | None \<Rightarrow> Inr dflt)"
| "py_get v k dflt =
     Inl (AttributeError (quoted (type_name v) @ '' object has no attribute '' @ quoted ''get''))"

fun getitem :: "pyval \<Rightarrow> string \<Rightarrow> exn + pyval" where
  \<comment> \<open>\<^verbatim>\<open>obj[key]\<close> with a string key\<close>
  "getitem (PDict d) k = (case map_of d k of Some v \<Rightarrow> Inr v | None \<Rightarrow> Inl (KeyError (quoted k)))"
| "getitem (PList xs) k = Inl (TypeError ''list indices must be integers or slices, not str'')"
| "getitem (PStr s) k = Inl (TypeError (''string indices must be integers, not '' @ quoted ''str''))"
| "getitem (PBytes b) k = Inl (TypeError ''byte indices must be integers or slices, not str'')"
| "getitem v k = Inl (TypeError (quoted (type_name v) @ '' object is not subscriptable''))"

fun getitem0 :: "pyval \<Rightarrow> exn + pyval" where
  \<comment> \<open>\<^verbatim>\<open>obj[0]\<close>\<close>
  "getitem0 (PList xs) =
     (case xs of [] \<Rightarrow> Inl (IndexError ''list index out of range'') | x # _ \<Rightarrow> Inr x)"
| "getitem0 (PStr s) =
     (case s of [] \<Rightarrow> Inl (IndexError ''string index out of range'') | c # _ \<Rightarrow> Inr (PStr [c]))"
| "getitem0 (PBytes b) =
     (case b of [] \<Rightarrow> Inl (IndexError ''index out of range'') | x # _ \<Rightarrow> Inr (PInt (uint x)))"
| "getitem0 (PDict d) = Inl (KeyError ''0'')"
| "getitem0 v = Inl (TypeError (quoted (type_name v) @ '' object is not subscriptable''))"

fun py_items :: "pyval \<Rightarrow> exn + (string \<times> pyval) list" where
  \<comment> \<open>\<^verbatim>\<open>obj.items()\<close>, as the list a loop over it visits\<close>
  "py_items (PDict d) = Inr d"
| "py_items v =
     Inl (AttributeError (quoted (type_name v) @ '' object has no attribute '' @ quoted ''items''))"

fun py_values :: "pyval \<Rightarrow> exn + pyval list" where
  \<comment> \<open>\<^verbatim>\<open>list(obj.values())\<close>\<close>
  "py_values (PDict d) = Inr (map snd d)"
| "py_values v =
     Inl (AttributeError (quoted (type_name v) @ '' object has no attribute '' @ quoted ''values''))"

definition setitem :: "(string \<times> pyval) list \<Rightarrow> string \<Rightarrow> pyval \<Rightarrow> (string \<times> pyval) list" where
  \<comment> \<open>\<^verbatim>\<open>d[k] = v\<close>: an existing key keeps its place, a new key goes last\<close>
  "setitem d k v = AList.update k v d"

section \<open>Library functions\<close>

subsection \<open>\<^verbatim>\<open>str\<close> of an integer and the clock\<close>

definition digit_char :: "nat \<Rightarrow> char" where
  \<comment> \<open>the character of a decimal digit \<open>d < 10\<close>\<close>
  "digit_char d = ''0123456789'' ! d"

fun digits :: "nat \<Rightarrow> string" where
  "digits n = (if n < 10 then [digit_char n] else digits (n div 10) @ [digit_char (n mod 10)])"

definition str_int :: "int \<Rightarrow> string" where
  \<comment> \<open>\<^verbatim>\<open>str(i)\<close> for an integer: its decimal digits, after a minus sign when negative\<close>
  "str_int i = (if i < 0 then CHR ''-'' # digits (nat (- i)) else digits (nat i))"

text \<open>
  \<^verbatim>\<open>_now_ms\<close> is \<^verbatim>\<open>int(time.time()*1000)\<close>. \<^verbatim>\<open>time.time()\<close> returns a \<^verbatim>\<open>float\<close>, an IEEE 754
  double; the product with \<^verbatim>\<open>1000\<close> is the floating-point one, the exact product rounded to
  the nearest double, a tie going to the double with an even significand; \<^verbatim>\<open>int\<close> then
  truncates towards zero. A double is a multiple of the unit in its last place, which for
  a magnitude \<open>a\<close> in \<open>[2\<^sup>e, 2\<^sup>e\<^sup>+\<^sup>1)\<close> is \<open>2\<^sup>e\<^sup>-\<^sup>5\<^sup>2\<close> (53 significant bits), and \<open>2\<^sup>-\<^sup>1\<^sup>0\<^sup>7\<^sup>4\<close> below
  the normal range. A clock reading is a number of seconds since 1970, so the product is
  far from the largest double and the overflow to infinity is not modelled.
\<close>

definition pow2 :: "int \<Rightarrow> real" where
  "pow2 k = (if 0 \<le> k then 2 ^ nat k else 1 / 2 ^ nat (- k))"

definition ilog2 :: "real \<Rightarrow> int" where
  \<comment> \<open>for \<open>0 < a\<close>: the exponent \<open>e\<close> with \<open>2\<^sup>e \<le> a < 2\<^sup>e\<^sup>+\<^sup>1\<close>\<close>
  "ilog2 a = (if 1 \<le> a then bitlen \<lfloor>a\<rfloor> - 1 else - bitlen (\<lceil>1 / a\<rceil> - 1))"

definition ulp :: "real \<Rightarrow> real" where
  \<comment> \<open>the spacing of the doubles around the magnitude \<open>a\<close>\<close>
  "ulp a = pow2 (max (ilog2 a) (- 1022) - 52)"

definition round_half_even :: "real \<Rightarrow> int" where
  \<comment> \<open>the nearest integer, the even one of the two when they are equally near\<close>
  "round_half_even q =
     (if q - of_int \<lfloor>q\<rfloor> < 1 / 2 then \<lfloor>q\<rfloor>
      else if 1 / 2 < q - of_int \<lfloor>q\<rfloor> then \<lfloor>q\<rfloor> + 1
      else if even \<lfloor>q\<rfloor> then \<lfloor>q\<rfloor> else \<lfloor>q\<rfloor> + 1)"

definition double_round :: "real \<Rightarrow> real" where
  \<comment> \<open>the double nearest to \<open>x\<close>, as the floating-point unit rounds an exact result\<close>
  "double_round x =
     (if x = 0 then 0
      else sgn x * (of_int (round_half_even (\<bar>x\<bar> / ulp \<bar>x\<bar>)) * ulp \<bar>x\<bar>))"

definition float_int :: "real \<Rightarrow> int" where
  \<comment> \<open>\<^verbatim>\<open>int(x)\<close> of a float: truncation towards zero\<close>
  "float_int x = (if 0 \<le> x then \<lfloor>x\<rfloor> else \<lceil>x\<rceil>)"

definition now_ms :: "real \<Rightarrow> int" where
  \<comment> \<open>\<^verbatim>\<open>_now_ms\<close> for the clock reading \<open>t\<close>. The reading is a double: a \<open>t\<close> that is not one
      stands for the double nearest to it, as a decimal literal does in Python.\<close>
  "now_ms t = float_int (double_round (double_round t * 1000))"

subsection \<open>\<^verbatim>\<open>json.dumps\<close>\<close>

text \<open>
  \<^verbatim>\<open>json.dumps\<close> writes every value of the model but \<^verbatim>\<open>bytes\<close>, on which it raises
  \<^verbatim>\<open>TypeError\<close>. The text it returns is represented by the value it encodes: the
  claims speak of the fields of a response body, not of its characters.
\<close>

fun serialisable :: "pyval \<Rightarrow> bool" where
  "serialisable (PBytes b) = False"
| "serialisable (PList xs) = list_all serialisable xs"
| "serialisable (PDict d) = list_all serialisable (map snd d)"
| "serialisable v = True"

datatype json_text = Json pyval

definition json_dumps :: "pyval \<Rightarrow> exn + json_text" where
  "json_dumps obj =
     (if serialisable obj then Inr (Json obj)
      else Inl (TypeError ''Object of type bytes is not JSON serializable''))"

subsection \<open>\<^verbatim>\<open>base64.b64decode\<close>\<close>

text \<open>
  \<^verbatim>\<open>base64.b64decode(s)\<close> with its default \<^verbatim>\<open>validate=False\<close>, as CPython 3.11 and later
  implement it: a \<^verbatim>\<open>str\<close> must be ASCII, anything that is neither \<^verbatim>\<open>str\<close> nor
  bytes-like is a \<^verbatim>\<open>TypeError\<close>, and \<^verbatim>\<open>binascii.a2b_base64\<close> in its non-strict mode then
  skips every character outside the alphabet, stops at a complete pad sequence, and raises
  \<^verbatim>\<open>binascii.Error\<close> only when the alphabet characters it has read do not end on a
  group of four.
\<close>

definition b64_index :: "char \<Rightarrow> byte option" where
  \<comment> \<open>\<^verbatim>\<open>table_a2b_base64\<close>: the six-bit value of an alphabet character\<close>
  "b64_index c =
     (let n = (of_char c :: nat) in
      if 65 \<le> n \<and> n \<le> 90 then Some (of_nat (n - 65))
      else if 97 \<le> n \<and> n \<le> 122 then Some (of_nat (n - 71))
      else if 48 \<le> n \<and> n \<le> 57 then Some (of_nat (n + 4))
      else if n = 43 then Some 62
      else if n = 47 then Some 63
      else None)"

fun a2b_loop :: "string \<Rightarrow> nat \<Rightarrow> byte \<Rightarrow> nat \<Rightarrow> byte list \<Rightarrow> exn + byte list" where
  "a2b_loop [] quad_pos leftchar pads bin_data =
     (if quad_pos \<noteq> 0 then
        (if quad_pos = 1 then
           Inl (BinasciiError (''Invalid base64-encoded string: number of data characters (''
             @ str_int (int (length bin_data div 3 * 4 + 1))
             @ '') cannot be 1 more than a multiple of 4''))
         else Inl (BinasciiError ''Incorrect padding''))
      else Inr bin_data)"
| "a2b_loop (c # cs) quad_pos leftchar pads bin_data =
     (if c = CHR ''='' then
        (if 2 \<le> quad_pos \<and> 4 \<le> quad_pos + (pads + 1) then Inr bin_data
         else a2b_loop cs quad_pos leftchar (if 2 \<le> quad_pos then pads + 1 else pads) bin_data)
      else
        (case b64_index c of
           None \<Rightarrow> a2b_loop cs quad_pos leftchar pads bin_data
         | Some this_ch \<Rightarrow>
             (if quad_pos = 0 then a2b_loop cs 1 this_ch 0 bin_data
              else if quad_pos = 1 then
                a2b_loop cs 2 (this_ch AND 0x0f) 0
                  (bin_data @ [push_bit 2 leftchar OR drop_bit 4 this_ch])
              else if quad_pos = 2 then
                a2b_loop cs 3 (this_ch AND 0x03) 0
                  (bin_data @ [push_bit 4 leftchar OR drop_bit 2 this_ch])
              else a2b_loop cs 0 0 0 (bin_data @ [push_bit 6 leftchar OR this_ch]))))"

definition a2b_base64 :: "string \<Rightarrow> exn + byte list" where
  "a2b_base64 s = a2b_loop s 0 0 0 []"

fun b64decode :: "pyval \<Rightarrow> exn + byte list" where
  "b64decode (PStr s) =
     (if list_all (\<lambda>c. (of_char c :: nat) < 128) s then a2b_base64 s
      else Inl (ValueError ''string argument should contain only ASCII characters''))"
| "b64decode (PBytes b) = a2b_base64 (map (\<lambda>x. char_of (unat x)) b)"
| "b64decode v =
     Inl (TypeError (''argument should be a bytes-like object or ASCII string, not ''
       @ quoted (type_name v)))"

section \<open>The environment of a handler invocation\<close>

text \<open>
  What the handlers read from outside: the module-level configuration, the standard
  library's \<^verbatim>\<open>json.loads\<close> (a parameter: any parser), the clock (\<open>time_time env n\<close> is
  the float that call number \<open>n\<close> of \<^verbatim>\<open>time.time()\<close> in the invocation returns, counting
  from \<open>0\<close>), and the four
  operations of the two collaborators. A collaborator operation takes its keyword
  arguments as a dict and returns a value or raises; it is called at most once in an
  invocation, so an arbitrary function of the arguments covers every behaviour of it.
  Exceptions are those of class \<^verbatim>\<open>Exception\<close>, which is what boto3 and the library raise.
\<close>

record env =
  COLLECTION_ID :: string
  TABLE_NAME :: string
  THRESHOLD :: real
  json_loads :: "string \<Rightarrow> exn + pyval"
  time_time :: "nat \<Rightarrow> real"
  index_faces :: "pyval \<Rightarrow> exn + pyval"
  put_item :: "pyval \<Rightarrow> exn + pyval"
  search_faces_by_image :: "pyval \<Rightarrow> exn + pyval"
  query :: "pyval \<Rightarrow> exn + pyval"

text \<open>A call made to a collaborator, with its keyword arguments.\<close>

datatype call =
    IndexFaces pyval
  | PutItem pyval
  | SearchFacesByImage pyval
  | Query pyval

fun collaborator :: "env \<Rightarrow> call \<Rightarrow> exn + pyval" where
  "collaborator env (IndexFaces args) = index_faces env args"
| "collaborator env (PutItem args) = put_item env args"
| "collaborator env (SearchFacesByImage args) = search_faces_by_image env args"
| "collaborator env (Query args) = query env args"

text \<open>
  A run of a piece of handler code: the collaborator calls it made, in order, and either
  the exception it raised (\<open>Inl\<close>) or the value it returned (\<open>Inr\<close>).
\<close>

type_synonym 'a run = "call list \<times> (exn + 'a)"

definition ebind :: "exn + 'a \<Rightarrow> ('a \<Rightarrow> exn + 'b) \<Rightarrow> exn + 'b" where
  \<comment> \<open>one statement after another: the first exception ends the block\<close>
  "ebind m f = (case m of Inl e \<Rightarrow> Inl e | Inr v \<Rightarrow> f v)"

definition step :: "exn + 'a \<Rightarrow> 'a run" where
  \<comment> \<open>code that calls no collaborator\<close>
  "step m = ([], m)"

definition invoke :: "env \<Rightarrow> call \<Rightarrow> pyval run" where
  "invoke env c = ([c], collaborator env c)"

definition rbind :: "'a run \<Rightarrow> ('a \<Rightarrow> 'b run) \<Rightarrow> 'b run" where
  "rbind m f =
     (case m of
        (cs, Inl e) \<Rightarrow> (cs, Inl e)
      | (cs, Inr v) \<Rightarrow> (case f v of (cs', r) \<Rightarrow> (cs @ cs', r)))"

section \<open>The response\<close>

record response =
  statusCode :: int
  headers :: "(string \<times> string) list"
  body :: json_text

definition resp :: "int \<Rightarrow> pyval \<Rightarrow> exn + response" where
  \<comment> \<open>\<^verbatim>\<open>_resp(code, obj)\<close>, the same in both modules\<close>
  "resp code obj =
     ebind (json_dumps obj) (\<lambda>text.
     Inr \<lparr>statusCode = code, headers = [(''Content-Type'', ''application/json'')], body = text\<rparr>)"

definition json_response :: "int \<Rightarrow> pyval \<Rightarrow> response" where
  \<comment> \<open>what \<^verbatim>\<open>_resp(code, obj)\<close> returns when \<^verbatim>\<open>json.dumps\<close> accepts \<open>obj\<close>\<close>
  "json_response code obj =
     \<lparr>statusCode = code, headers = [(''Content-Type'', ''application/json'')], body = Json obj\<rparr>"

section \<open>The request body\<close>

definition request_body :: "env \<Rightarrow> pyval \<Rightarrow> exn + pyval" where
  \<comment> \<open>the first two statements of both handlers:
      \<^verbatim>\<open>body_raw = event.get("body")\<close>,
      \<^verbatim>\<open>body = json.loads(body_raw) if isinstance(body_raw, str) else (body_raw or {})\<close>\<close>
  "request_body env event =
     ebind (py_get event ''body'' PNone) (\<lambda>body_raw.
     case body_raw of
       PStr s \<Rightarrow> json_loads env s
     | _ \<Rightarrow> Inr (if truthy body_raw then body_raw else PDict []))"

section \<open>The registration handler (\<^verbatim>\<open>register_patient.py\<close>)\<close>

definition register_request :: "env \<Rightarrow> pyval \<Rightarrow> exn + (pyval \<times> pyval \<times> byte list)" where
  \<comment> \<open>lines 21 to 27: the body, its three fields, the decoded image\<close>
  "register_request env event =
     ebind (request_body env event) (\<lambda>body.
     ebind (getitem body ''image_base64'') (\<lambda>image_b64.
     ebind (getitem body ''patient_id'') (\<lambda>patient_id.
     ebind (py_get body ''attributes'' (PDict [])) (\<lambda>attrs.
     ebind (b64decode image_b64) (\<lambda>img_bytes.
     Inr (patient_id, attrs, img_bytes))))))"

definition index_faces_args :: "env \<Rightarrow> byte list \<Rightarrow> pyval \<Rightarrow> pyval" where
  \<comment> \<open>lines 30 to 37\<close>
  "index_faces_args env img_bytes patient_id =
     PDict [(''CollectionId'', PStr (COLLECTION_ID env)),
            (''Image'', PDict [(''Bytes'', PBytes img_bytes)]),
            (''ExternalImageId'', patient_id),
            (''DetectionAttributes'', PList [PStr ''DEFAULT'']),
            (''MaxFaces'', PInt 1),
            (''QualityFilter'', PStr ''AUTO'')]"

definition first_face_id :: "pyval \<Rightarrow> exn + pyval" where
  \<comment> \<open>line 42: \<^verbatim>\<open>idx['FaceRecords'][0]['Face']['FaceId']\<close>\<close>
  "first_face_id idx =
     ebind (getitem idx ''FaceRecords'') (\<lambda>records.
     ebind (getitem0 records) (\<lambda>record.
     ebind (getitem record ''Face'') (\<lambda>face.
     getitem face ''FaceId'')))"

definition core_item :: "env \<Rightarrow> pyval \<Rightarrow> pyval \<Rightarrow> (string \<times> pyval) list" where
  \<comment> \<open>lines 44 to 49; \<^verbatim>\<open>_now_ms()\<close> is called once for each of the two timestamps\<close>
  "core_item env patient_id face_id =
     [(''patient_id'', PDict [(''S'', patient_id)]),
      (''face_id'', PDict [(''S'', face_id)]),
      (''created_at'', PDict [(''N'', PStr (str_int (now_ms (time_time env 0))))]),
      (''updated_at'', PDict [(''N'', PStr (str_int (now_ms (time_time env 1))))])]"

fun merge_attrs :: "(string \<times> pyval) list \<Rightarrow> (string \<times> pyval) list \<Rightarrow> (string \<times> pyval) list" where
  \<comment> \<open>lines 50 to 52: the loop over \<^verbatim>\<open>attrs.items()\<close>\<close>
  "merge_attrs [] item = item"
| "merge_attrs ((k, v) # kvs) item =
     merge_attrs kvs (if is_str v then setitem item k (PDict [(''S'', v)]) else item)"

definition register_item :: "env \<Rightarrow> pyval \<Rightarrow> pyval \<Rightarrow> pyval \<Rightarrow> exn + (string \<times> pyval) list" where
  \<comment> \<open>lines 44 to 52\<close>
  "register_item env patient_id face_id attrs =
     ebind (py_items attrs) (\<lambda>kvs. Inr (merge_attrs kvs (core_item env patient_id face_id)))"

definition put_item_args :: "env \<Rightarrow> (string \<times> pyval) list \<Rightarrow> pyval" where
  \<comment> \<open>line 54\<close>
  "put_item_args env item = PDict [(''TableName'', PStr (TABLE_NAME env)), (''Item'', PDict item)]"

definition register_try :: "env \<Rightarrow> pyval \<Rightarrow> response run" where
  \<comment> \<open>the \<^verbatim>\<open>try\<close> block, lines 21 to 55\<close>
  "register_try env event =
     rbind (step (register_request env event)) (\<lambda>(patient_id, attrs, img_bytes).
     rbind (invoke env (IndexFaces (index_faces_args env img_bytes patient_id))) (\<lambda>idx.
     rbind (step (py_get idx ''FaceRecords'' PNone)) (\<lambda>records.
     if \<not> truthy records then
       step (resp 422 (PDict [(''message'', PStr ''No face detected or poor quality.'')]))
     else
       rbind (step (first_face_id idx)) (\<lambda>face_id.
       rbind (step (register_item env patient_id face_id attrs)) (\<lambda>item.
       rbind (invoke env (PutItem (put_item_args env item))) (\<lambda>_.
       step (resp 201 (PDict [(''patient_id'', patient_id), (''face_id'', face_id)]))))))))"

definition on_exception :: "response run \<Rightarrow> response run" where
  \<comment> \<open>\<^verbatim>\<open>except Exception as e: return _resp(500, {"error": str(e)})\<close>, the same in both
      modules. \<open>Inl\<close> in the result is an exception that leaves the handler.\<close>
  "on_exception r =
     (case r of
        (cs, Inr v) \<Rightarrow> (cs, Inr v)
      | (cs, Inl e) \<Rightarrow> (cs, resp 500 (PDict [(''error'', PStr (str_exn e))])))"

definition register_handler :: "env \<Rightarrow> pyval \<Rightarrow> response run" where
  "register_handler env event = on_exception (register_try env event)"

section \<open>The identification handler (\<^verbatim>\<open>identify_patient.py\<close>)\<close>

definition identify_request :: "env \<Rightarrow> pyval \<Rightarrow> exn + byte list" where
  \<comment> \<open>lines 18 to 21\<close>
  "identify_request env event =
     ebind (request_body env event) (\<lambda>body.
     ebind (getitem body ''image_base64'') (\<lambda>image_b64.
     b64decode image_b64))"

definition search_args :: "env \<Rightarrow> byte list \<Rightarrow> pyval" where
  \<comment> \<open>lines 24 to 29\<close>
  "search_args env img_bytes =
     PDict [(''CollectionId'', PStr (COLLECTION_ID env)),
            (''Image'', PDict [(''Bytes'', PBytes img_bytes)]),
            (''FaceMatchThreshold'', PFloat (THRESHOLD env)),
            (''MaxFaces'', PInt 1)]"

definition first_match :: "pyval \<Rightarrow> exn + (pyval \<times> pyval)" where
  \<comment> \<open>lines 34 to 36: the first match, its face id and its similarity\<close>
  "first_match res =
     ebind (getitem res ''FaceMatches'') (\<lambda>matches.
     ebind (getitem0 matches) (\<lambda>match.
     ebind (getitem match ''Face'') (\<lambda>face.
     ebind (getitem face ''FaceId'') (\<lambda>face_id.
     ebind (getitem match ''Similarity'') (\<lambda>similarity.
     Inr (face_id, similarity))))))"

definition query_args :: "env \<Rightarrow> pyval \<Rightarrow> pyval" where
  \<comment> \<open>lines 38 to 44\<close>
  "query_args env face_id =
     PDict [(''TableName'', PStr (TABLE_NAME env)),
            (''IndexName'', PStr ''face_id-index''),
            (''KeyConditionExpression'', PStr ''face_id = :f''),
            (''ExpressionAttributeValues'', PDict [('':f'', PDict [(''S'', face_id)])]),
            (''Limit'', PInt 1)]"

definition first_item :: "pyval \<Rightarrow> exn + pyval" where
  \<comment> \<open>line 48: \<^verbatim>\<open>q['Items'][0]\<close>\<close>
  "first_item q = ebind (getitem q ''Items'') getitem0"

definition first_value :: "pyval \<Rightarrow> exn + pyval" where
  \<comment> \<open>\<^verbatim>\<open>list(v.values())[0]\<close>\<close>
  "first_value v = ebind (py_values v) (\<lambda>vs. getitem0 (PList vs))"

fun flatten_fields :: "(string \<times> pyval) list \<Rightarrow> (string \<times> pyval) list \<Rightarrow> exn + (string \<times> pyval) list" where
  \<comment> \<open>line 49: the dict comprehension \<^verbatim>\<open>{k: list(v.values())[0] for k,v in item.items()}\<close>,
      entry by entry\<close>
  "flatten_fields [] result = Inr result"
| "flatten_fields ((k, v) # kvs) result =
     ebind (first_value v) (\<lambda>x. flatten_fields kvs (setitem result k x))"

definition identify_result :: "pyval \<Rightarrow> pyval \<Rightarrow> exn + (string \<times> pyval) list" where
  \<comment> \<open>lines 49 and 50\<close>
  "identify_result item similarity =
     ebind (py_items item) (\<lambda>kvs.
     ebind (flatten_fields kvs []) (\<lambda>result.
     Inr (setitem result ''similarity'' similarity)))"

definition identify_try :: "env \<Rightarrow> pyval \<Rightarrow> response run" where
  \<comment> \<open>the \<^verbatim>\<open>try\<close> block, lines 18 to 52\<close>
  "identify_try env event =
     rbind (step (identify_request env event)) (\<lambda>img_bytes.
     rbind (invoke env (SearchFacesByImage (search_args env img_bytes))) (\<lambda>res.
     rbind (step (py_get res ''FaceMatches'' PNone)) (\<lambda>matches.
     if \<not> truthy matches then
       step (resp 404 (PDict [(''message'', PStr ''No confident match'')]))
     else
       rbind (step (first_match res)) (\<lambda>(face_id, similarity).
       rbind (invoke env (Query (query_args env face_id))) (\<lambda>q.
       rbind (step (py_get q ''Items'' PNone)) (\<lambda>items.
       if \<not> truthy items then
         step (resp 404 (PDict [(''message'', PStr ''Face mapped but no patient record'')]))
       else
         rbind (step (first_item q)) (\<lambda>item.
         rbind (step (identify_result item similarity)) (\<lambda>result.
         step (resp 200 (PDict result))))))))))"

definition identify_handler :: "env \<Rightarrow> pyval \<Rightarrow> response run" where
  "identify_handler env event = on_exception (identify_try env event)"

section \<open>Example invocations\<close>

text \<open>
  Concrete environments and events, used to evaluate the handlers. \<open>demo_loads\<close> parses the
  request texts of the examples and rejects every other text, as \<^verbatim>\<open>json.loads\<close> rejects
  a text that is not JSON.
\<close>

definition demo_body :: string where
  \<open>demo_body = ''{"image_base64": "QUJD", "patient_id": "P-1", "attributes": {"name": "A", "age": 30}}''\<close>

definition null_attributes_body :: string where
  \<open>null_attributes_body = ''{"image_base64": "QUJD", "patient_id": "P-1", "attributes": null}''\<close>

definition override_body :: string where
  \<open>override_body = ''{"image_base64": "QUJD", "patient_id": "P-1", "attributes": {"face_id": "other", "created_at": "yesterday"}}''\<close>

definition junk_image_body :: string where
  \<open>junk_image_body = ''{"image_base64": "QUJD!", "patient_id": "P-1"}''\<close>

definition bad_padding_body :: string where
  \<open>bad_padding_body = ''{"image_base64": "invalid_base64_data", "patient_id": "P-1"}''\<close>

definition demo_loads :: "string \<Rightarrow> exn + pyval" where
  "demo_loads s =
     (if s = demo_body then
        Inr (PDict [(''image_base64'', PStr ''QUJD''), (''patient_id'', PStr ''P-1''),
                    (''attributes'', PDict [(''name'', PStr ''A''), (''age'', PInt 30)])])
      else if s = null_attributes_body then
        Inr (PDict [(''image_base64'', PStr ''QUJD''), (''patient_id'', PStr ''P-1''),
                    (''attributes'', PNone)])
      else if s = override_body then
        Inr (PDict [(''image_base64'', PStr ''QUJD''), (''patient_id'', PStr ''P-1''),
                    (''attributes'', PDict [(''face_id'', PStr ''other''),
                                            (''created_at'', PStr ''yesterday'')])])
      else if s = junk_image_body then
        Inr (PDict [(''image_base64'', PStr ''QUJD!''), (''patient_id'', PStr ''P-1'')])
      else if s = bad_padding_body then
        Inr (PDict [(''image_base64'', PStr ''invalid_base64_data''), (''patient_id'', PStr ''P-1'')])
      else Inl (ValueError ''Expecting value: line 1 column 1 (char 0)''))"

definition demo_time :: real where
  \<comment> \<open>a clock reading; this one is a double\<close>
  "demo_time = 1700000000.25"

definition demo_env :: env where
  "demo_env =
     \<lparr>COLLECTION_ID = ''patients'', TABLE_NAME = ''patients-table'', THRESHOLD = 95,
      json_loads = demo_loads,
      time_time = (\<lambda>n. demo_time),
      index_faces = (\<lambda>args. Inr (PDict [(''FaceRecords'',
         PList [PDict [(''Face'', PDict [(''FaceId'', PStr ''face-1'')])]])])),
      put_item = (\<lambda>args. Inr (PDict [])),
      search_faces_by_image = (\<lambda>args. Inr (PDict [(''FaceMatches'',
         PList [PDict [(''Face'', PDict [(''FaceId'', PStr ''face-1'')]),
                       (''Similarity'', PFloat 97.5)]])])),
      query = (\<lambda>args. Inr (PDict [(''Items'',
         PList [PDict [(''patient_id'', PDict [(''S'', PStr ''P-1'')]),
                       (''face_id'', PDict [(''S'', PStr ''face-1'')]),
                       (''name'', PDict [(''S'', PStr ''A'')])]])]))\<rparr>"

definition demo_event :: pyval where
  "demo_event = PDict [(''body'', PStr demo_body)]"

definition no_face_env :: env where
  \<comment> \<open>the recognition service finds no face\<close>
  "no_face_env = demo_env\<lparr>index_faces := \<lambda>args. Inr (PDict [(''FaceRecords'', PList [])])\<rparr>"

definition identify_event :: pyval where
  \<comment> \<open>an identification request, its body already a dict\<close>
  "identify_event = PDict [(''body'', PDict [(''image_base64'', PStr ''QUJD'')])]"

definition no_match_env :: env where
  \<comment> \<open>the recognition service finds no match\<close>
  "no_match_env =
     demo_env\<lparr>search_faces_by_image := \<lambda>args. Inr (PDict [(''FaceMatches'', PList [])])\<rparr>"

definition no_record_env :: env where
  \<comment> \<open>the store has no record under the matched face id\<close>
  "no_record_env = demo_env\<lparr>query := \<lambda>args. Inr (PDict [(''Items'', PList [])])\<rparr>"

definition throttled_env :: env where
  \<comment> \<open>both collaborators raise\<close>
  "throttled_env =
     demo_env\<lparr>index_faces := \<lambda>args. Inl (OtherError ''ClientError'' ''Rate exceeded''),
              search_faces_by_image := \<lambda>args. Inl (OtherError ''ClientError'' ''Rate exceeded'')\<rparr>"

definition override_event :: pyval where
  "override_event = PDict [(''body'', PStr override_body)]"

definition tick_before :: real where
  "tick_before = 1700000000.9996"

definition tick_after :: real where
  "tick_after = 1700000001.0004"

definition tick_env :: env where
  \<comment> \<open>the millisecond changes between the two clock reads\<close>
  "tick_env = demo_env\<lparr>time_time := \<lambda>n. if n = 0 then tick_before else tick_after\<rparr>"

definition round_down_time :: real where
  \<comment> \<open>two readings in the same millisecond, on either side of the point where the
      floating-point product reaches the next one\<close>
  "round_down_time = 1700000000.0279996"

definition round_up_time :: real where
  "round_up_time = 1700000000.0279999"

definition null_attributes_event :: pyval where
  "null_attributes_event = PDict [(''body'', PStr null_attributes_body)]"

definition junk_image_event :: pyval where
  "junk_image_event = PDict [(''body'', PStr junk_image_body)]"

definition bad_padding_event :: pyval where
  "bad_padding_event = PDict [(''body'', PStr bad_padding_body)]"

definition similarity_record :: "(string \<times> pyval) list" where
  \<comment> \<open>a stored record with a field named \<^verbatim>\<open>similarity\<close>, as a registration with the
      attributes \<^verbatim>\<open>{"similarity": "high"}\<close> writes it\<close>
  "similarity_record =
     [(''patient_id'', PDict [(''S'', PStr ''P-1'')]),
      (''face_id'', PDict [(''S'', PStr ''face-1'')]),
      (''similarity'', PDict [(''S'', PStr ''high'')])]"

definition similarity_env :: env where
  "similarity_env =
     demo_env\<lparr>query := \<lambda>args. Inr (PDict [(''Items'', PList [PDict similarity_record])])\<rparr>"

section \<open>Notions the claims use\<close>

definition str_attr :: "(string \<times> pyval) list \<Rightarrow> string \<Rightarrow> string option" where
  \<comment> \<open>the string the attributes mapping holds under a key, when it holds a string there\<close>
  "str_attr attrs k = (case map_of attrs k of Some (PStr s) \<Rightarrow> Some s | _ \<Rightarrow> None)"

definition same_timestamps :: "(string \<times> pyval) list \<Rightarrow> bool" where
  \<comment> \<open>the record's \<^verbatim>\<open>created_at\<close> field equals its \<^verbatim>\<open>updated_at\<close> field\<close>
  "same_timestamps item = (map_of item ''created_at'' = map_of item ''updated_at'')"

definition plain_value :: "pyval \<Rightarrow> pyval option" where
  \<comment> \<open>the plain value inside a typed field such as \<^verbatim>\<open>{'S': 'x'}\<close>, when the field has one\<close>
  "plain_value v = (case first_value v of Inl e \<Rightarrow> None | Inr x \<Rightarrow> Some x)"

definition includes_record :: "(string \<times> pyval) list \<Rightarrow> json_text \<Rightarrow> bool" where
  \<comment> \<open>the body includes every field of the stored record, with the field's plain value\<close>
  "includes_record stored text =
     (case text of
        Json (PDict result) \<Rightarrow>
          list_all (\<lambda>(k, v). plain_value v \<noteq> None \<and> map_of result k = plain_value v) stored
      | _ \<Rightarrow> False)"

definition json_fields :: "(string \<times> pyval) list \<Rightarrow> bool" where
  \<comment> \<open>every field of the record is a typed field whose plain value \<^verbatim>\<open>json.dumps\<close> accepts\<close>
  "json_fields stored =
     list_all (\<lambda>(k, v). case plain_value v of None \<Rightarrow> False | Some x \<Rightarrow> serialisable x) stored"

definition rfc4648_base64 :: "string \<Rightarrow> bool" where
  \<comment> \<open>well-formed base64 in the sense of RFC 4648: groups of four characters of the
      alphabet, the last group ending in at most two pad characters\<close>
  "rfc4648_base64 s =
     (length s mod 4 = 0 \<and>
      list_all (\<lambda>c. b64_index c \<noteq> None) (takeWhile (\<lambda>c. c \<noteq> CHR ''='') s) \<and>
      length (dropWhile (\<lambda>c. c \<noteq> CHR ''='') s) \<le> 2 \<and>
      list_all (\<lambda>c. c = CHR ''='') (dropWhile (\<lambda>c. c \<noteq> CHR ''='') s))"

section \<open>Basic facts about the model\<close>

lemma quoted_nonempty: "quoted s \<noteq> []"
  by (simp add: quoted_def)

lemma rbind_pair:
  "rbind (cs, m) f = (case m of Inl e \<Rightarrow> (cs, Inl e) | Inr v \<Rightarrow> (cs @ fst (f v), snd (f v)))"
  by (simp add: rbind_def split: sum.splits prod.splits)

lemma resp_json_response: "serialisable obj \<Longrightarrow> resp code obj = Inr (json_response code obj)"
  by (simp add: resp_def json_dumps_def ebind_def json_response_def)

lemma on_exception_pair:
  "on_exception (cs, m) =
     (case m of Inr v \<Rightarrow> (cs, Inr v)
      | Inl e \<Rightarrow> (cs, Inr (json_response 500 (PDict [(''error'', PStr (str_exn e))]))))"
  by (simp add: on_exception_def resp_json_response split: sum.splits)

text \<open>The two \<^verbatim>\<open>try\<close> blocks, statement by statement.\<close>

lemma register_try_unfold:
  "register_try env event =
     (case register_request env event of
        Inl e \<Rightarrow> ([], Inl e)
      | Inr (patient_id, attrs, img_bytes) \<Rightarrow>
          (case index_faces env (index_faces_args env img_bytes patient_id) of
             Inl e \<Rightarrow> ([IndexFaces (index_faces_args env img_bytes patient_id)], Inl e)
           | Inr idx \<Rightarrow>
               (case py_get idx ''FaceRecords'' PNone of
                  Inl e \<Rightarrow> ([IndexFaces (index_faces_args env img_bytes patient_id)], Inl e)
                | Inr records \<Rightarrow>
                    if \<not> truthy records then
                      ([IndexFaces (index_faces_args env img_bytes patient_id)],
                       resp 422 (PDict [(''message'', PStr ''No face detected or poor quality.'')]))
                    else
                      (case first_face_id idx of
                         Inl e \<Rightarrow> ([IndexFaces (index_faces_args env img_bytes patient_id)], Inl e)
                       | Inr face_id \<Rightarrow>
                           (case register_item env patient_id face_id attrs of
                              Inl e \<Rightarrow>
                                ([IndexFaces (index_faces_args env img_bytes patient_id)], Inl e)
                            | Inr item \<Rightarrow>
                                (case put_item env (put_item_args env item) of
                                   Inl e \<Rightarrow>
                                     ([IndexFaces (index_faces_args env img_bytes patient_id),
                                       PutItem (put_item_args env item)], Inl e)
                                 | Inr out \<Rightarrow>
                                     ([IndexFaces (index_faces_args env img_bytes patient_id),
                                       PutItem (put_item_args env item)],
                                      resp 201 (PDict [(''patient_id'', patient_id),
                                                       (''face_id'', face_id)]))))))))"
  by (simp add: register_try_def rbind_pair step_def invoke_def split: sum.splits prod.splits)

lemma identify_try_unfold:
  "identify_try env event =
     (case identify_request env event of
        Inl e \<Rightarrow> ([], Inl e)
      | Inr img_bytes \<Rightarrow>
          (case search_faces_by_image env (search_args env img_bytes) of
             Inl e \<Rightarrow> ([SearchFacesByImage (search_args env img_bytes)], Inl e)
           | Inr res \<Rightarrow>
               (case py_get res ''FaceMatches'' PNone of
                  Inl e \<Rightarrow> ([SearchFacesByImage (search_args env img_bytes)], Inl e)
                | Inr matches \<Rightarrow>
                    if \<not> truthy matches then
                      ([SearchFacesByImage (search_args env img_bytes)],
                       resp 404 (PDict [(''message'', PStr ''No confident match'')]))
                    else
                      (case first_match res of
                         Inl e \<Rightarrow> ([SearchFacesByImage (search_args env img_bytes)], Inl e)
                       | Inr (face_id, similarity) \<Rightarrow>
                           (case query env (query_args env face_id) of
                              Inl e \<Rightarrow>
                                ([SearchFacesByImage (search_args env img_bytes),
                                  Query (query_args env face_id)], Inl e)
                            | Inr q \<Rightarrow>
                                (case py_get q ''Items'' PNone of
                                   Inl e \<Rightarrow>
                                     ([SearchFacesByImage (search_args env img_bytes),
                                       Query (query_args env face_id)], Inl e)
                                 | Inr items \<Rightarrow>
                                     if \<not> truthy items then
                                       ([SearchFacesByImage (search_args env img_bytes),
                                         Query (query_args env face_id)],
                                        resp 404 (PDict [(''message'',
                                          PStr ''Face mapped but no patient record'')]))
                                     else
                                       (case first_item q of
                                          Inl e \<Rightarrow>
                                            ([SearchFacesByImage (search_args env img_bytes),
                                              Query (query_args env face_id)], Inl e)
                                        | Inr item \<Rightarrow>
                                            (case identify_result item similarity of
                                               Inl e \<Rightarrow>
                                                 ([SearchFacesByImage (search_args env img_bytes),
                                                   Query (query_args env face_id)], Inl e)
                                             | Inr result \<Rightarrow>
                                                 ([SearchFacesByImage (search_args env img_bytes),
                                                   Query (query_args env face_id)],
                                                  resp 200 (PDict result))))))))))"
  by (simp add: identify_try_def rbind_pair step_def invoke_def split: sum.splits prod.splits)

lemmas demo_eval =
  demo_env_def demo_event_def demo_loads_def demo_body_def null_attributes_body_def
  override_body_def junk_image_body_def bad_padding_body_def
  register_request_def request_body_def
  identify_request_def ebind_def a2b_base64_def b64_index_def index_faces_args_def
  search_args_def query_args_def put_item_args_def json_response_def

section \<open>The decimal text of an integer\<close>

text \<open>\<^verbatim>\<open>str\<close> gives different integers different texts.\<close>

lemma digit_char_value:
  assumes "d < 10"
  shows "of_char (digit_char d) = 48 + d"
proof -
  from assms have "d \<in> {0, 1, 2, 3, 4, 5, 6, 7, 8, 9}" by auto
  then show ?thesis by (auto simp add: digit_char_def)
qed

lemma digit_char_not_minus:
  assumes "d < 10"
  shows "digit_char d \<noteq> CHR ''-''"
proof
  assume "digit_char d = CHR ''-''"
  then have "(of_char (digit_char d) :: nat) = of_char CHR ''-''" by simp
  with digit_char_value [OF assms] show False by simp
qed

lemma digits_read_back:
  "foldl (\<lambda>a c. 10 * a + (of_char c - 48)) 0 (digits n) = n"
proof (induction n rule: digits.induct)
  case (1 n)
  show ?case
  proof (cases "n < 10")
    case True
    then show ?thesis
      by (subst digits.simps) (simp add: digit_char_value del: digits.simps)
  next
    case False
    have "n mod 10 < 10" by simp
    with False 1 show ?thesis
      by (subst digits.simps) (simp add: digit_char_value del: digits.simps)
  qed
qed

lemma digits_inj: "digits m = digits n \<Longrightarrow> m = n"
  by (metis digits_read_back)

lemma hd_digits_not_minus: "hd (digits n) \<noteq> CHR ''-''"
proof (induction n rule: digits.induct)
  case (1 n)
  show ?case
  proof (cases "n < 10")
    case True
    then show ?thesis
      by (subst digits.simps) (simp add: digit_char_not_minus del: digits.simps)
  next
    case False
    have ne: "digits (n div 10) \<noteq> []"
      by (subst digits.simps) (simp del: digits.simps)
    with False 1 show ?thesis
      by (subst digits.simps) (simp del: digits.simps)
  qed
qed

lemma str_int_inj:
  assumes "str_int i = str_int j"
  shows "i = j"
proof -
  have neg: "hd (str_int k) = CHR ''-'' \<longleftrightarrow> k < 0" for k
    by (simp add: str_int_def hd_digits_not_minus del: digits.simps)
  from assms neg [of i] neg [of j] have sign: "i < 0 \<longleftrightarrow> j < 0" by simp
  show ?thesis
  proof (cases "i < 0")
    case True
    with sign assms have "digits (nat (- i)) = digits (nat (- j))"
      by (simp add: str_int_def del: digits.simps)
    then have "nat (- i) = nat (- j)" by (rule digits_inj)
    with True sign show ?thesis by simp
  next
    case False
    with sign assms have "digits (nat i) = digits (nat j)"
      by (simp add: str_int_def del: digits.simps)
    then have "nat i = nat j" by (rule digits_inj)
    with False sign show ?thesis by simp
  qed
qed

section \<open>The clock in double arithmetic\<close>

text \<open>
  Rounding to the nearest double moves a number of at least \<open>1\<close> by at most the fraction
  \<open>2\<^sup>-\<^sup>5\<^sup>3\<close> of it, so \<open>now_ms t\<close> is within one millisecond, and the two roundings, of
  \<open>1000 * t\<close>. The remaining lemmas evaluate \<open>now_ms\<close> at the readings of the examples,
  one rounding at a time.
\<close>

lemma round_half_even_eq:
  assumes "\<bar>q - of_int k\<bar> < 1 / 2"
  shows "round_half_even q = k"
proof (cases "of_int k \<le> q")
  case True
  with assms have "\<lfloor>q\<rfloor> = k" by (intro floor_unique) (auto simp add: abs_if split: if_splits)
  with assms True show ?thesis by (simp add: round_half_even_def abs_if split: if_splits)
next
  case False
  with assms have "\<lfloor>q\<rfloor> = k - 1" by (intro floor_unique) (auto simp add: abs_if split: if_splits)
  with assms False show ?thesis by (simp add: round_half_even_def abs_if split: if_splits)
qed

lemma round_half_even_error: "\<bar>of_int (round_half_even q) - q\<bar> \<le> 1 / 2"
proof -
  define f where "f = \<lfloor>q\<rfloor>"
  have "of_int f \<le> q" "q < of_int f + 1" unfolding f_def by linarith+
  then show ?thesis
    unfolding round_half_even_def f_def [symmetric] by (auto simp add: abs_if)
qed

lemma pow2_pos: "0 < pow2 k"
  by (simp add: pow2_def)

lemma ilog2_bounds:
  assumes "1 \<le> a"
  shows "0 \<le> ilog2 a" and "pow2 (ilog2 a) \<le> a"
proof -
  from assms have pos: "0 < \<lfloor>a\<rfloor>" by linarith
  from bitlen_bounds [OF pos] have b: "2 ^ nat (bitlen \<lfloor>a\<rfloor> - 1) \<le> \<lfloor>a\<rfloor>" by simp
  from pos have "1 \<le> bitlen \<lfloor>a\<rfloor>" by (auto simp add: bitlen_alt_def)
  with assms show "0 \<le> ilog2 a" by (simp add: ilog2_def)
  then have "pow2 (ilog2 a) = 2 ^ nat (bitlen \<lfloor>a\<rfloor> - 1)"
    using assms by (simp add: pow2_def ilog2_def)
  also have "\<dots> = real_of_int (2 ^ nat (bitlen \<lfloor>a\<rfloor> - 1))" by simp
  also from b have "\<dots> \<le> real_of_int \<lfloor>a\<rfloor>" by (rule of_int_le_iff [THEN iffD2])
  also have "\<dots> \<le> a" by simp
  finally show "pow2 (ilog2 a) \<le> a" .
qed

lemma ulp_le:
  assumes "1 \<le> a"
  shows "ulp a \<le> a / 2 ^ 52"
proof -
  from ilog2_bounds [OF assms] have nn: "0 \<le> ilog2 a" and le: "pow2 (ilog2 a) \<le> a" .
  have "ulp a = pow2 (ilog2 a - 52)" using nn by (simp add: ulp_def max_def)
  also have "\<dots> = pow2 (ilog2 a) / 2 ^ 52"
  proof (cases "52 \<le> ilog2 a")
    case True
    then have "nat (ilog2 a) = nat (ilog2 a - 52) + 52" by simp
    then have "(2::real) ^ nat (ilog2 a) = 2 ^ nat (ilog2 a - 52) * 2 ^ 52"
      by (simp only: power_add)
    with True nn show ?thesis by (simp add: pow2_def)
  next
    case False
    then have "52 = nat (52 - ilog2 a) + nat (ilog2 a)" using nn by simp
    then have "(2::real) ^ 52 = 2 ^ nat (52 - ilog2 a) * 2 ^ nat (ilog2 a)"
      by (simp only: power_add [symmetric])
    then have "(2::real) ^ nat (ilog2 a) = 2 ^ 52 / 2 ^ nat (52 - ilog2 a)"
      by (simp add: field_simps)
    with False nn show ?thesis by (simp add: pow2_def)
  qed
  also from le have "\<dots> \<le> a / 2 ^ 52" by (simp add: divide_right_mono)
  finally show ?thesis .
qed

lemma double_round_error:
  assumes "1 \<le> x"
  shows "\<bar>double_round x - x\<bar> \<le> x / 2 ^ 53"
proof -
  let ?u = "ulp \<bar>x\<bar>"
  from assms have x: "\<bar>x\<bar> = x" "x \<noteq> 0" "sgn x = 1" by simp_all
  have u: "0 < ?u" by (simp add: ulp_def pow2_pos)
  have "double_round x - x = (of_int (round_half_even (x / ?u)) - x / ?u) * ?u"
    using x u by (simp add: double_round_def algebra_simps)
  then have "\<bar>double_round x - x\<bar> = \<bar>of_int (round_half_even (x / ?u)) - x / ?u\<bar> * ?u"
    using u by (simp add: abs_mult)
  also have "\<dots> \<le> 1 / 2 * ?u"
    using round_half_even_error [of "x / ?u"] u by (intro mult_right_mono) simp_all
  also have "\<dots> \<le> 1 / 2 * (x / 2 ^ 52)"
    using ulp_le [OF assms] x by simp
  also have "\<dots> = x / 2 ^ 53" by simp
  finally show ?thesis .
qed

lemma now_ms_near:
  assumes "1 \<le> t"
  shows "\<bar>real_of_int (now_ms t) - 1000 * t\<bar> < 1 + 1000 * t / 2 ^ 51"
proof -
  let ?d = "double_round t"
  let ?p = "double_round (?d * 1000)"
  from double_round_error [OF assms] have d: "\<bar>?d - t\<bar> \<le> t / 2 ^ 53" .
  have small: "t / 2 ^ 53 \<le> t / 2" using assms by (simp add: field_simps)
  from d small have dlow: "t / 2 \<le> ?d" by arith
  with assms have d1: "1 \<le> ?d * 1000" by simp
  from d small assms have dhigh: "?d \<le> 2 * t" by arith
  from double_round_error [OF d1] have p: "\<bar>?p - ?d * 1000\<bar> \<le> ?d * 1000 / 2 ^ 53" .
  from dhigh have "?d * 1000 / 2 ^ 53 \<le> 2 * t * 1000 / 2 ^ 53"
    by (simp add: divide_right_mono)
  with p have p': "\<bar>?p - ?d * 1000\<bar> \<le> 2 * t * 1000 / 2 ^ 53" by linarith
  have "?d * 1000 / 2 ^ 53 \<le> ?d * 1000 / 2" using d1 by (simp add: field_simps)
  with p d1 have ppos: "0 \<le> ?p" by arith
  then have n: "now_ms t = \<lfloor>?p\<rfloor>" by (simp add: now_ms_def float_int_def)
  have fl: "\<bar>real_of_int \<lfloor>?p\<rfloor> - ?p\<bar> < 1" by linarith
  have "\<bar>real_of_int (now_ms t) - 1000 * t\<bar>
      \<le> \<bar>real_of_int \<lfloor>?p\<rfloor> - ?p\<bar> + \<bar>?p - ?d * 1000\<bar> + 1000 * \<bar>?d - t\<bar>"
    unfolding n by (simp add: abs_if split: if_splits)
  also have "\<dots> < 1 + 2 * t * 1000 / 2 ^ 53 + 1000 * (t / 2 ^ 53)"
    using fl p' d by (simp add: add_less_le_mono add_mono)
  also have "\<dots> \<le> 1 + 1000 * t / 2 ^ 51" using assms by (simp add: field_simps)
  finally show ?thesis .
qed


lemma bitlen_eval: "bitlen (numeral n) = bitlen (numeral n div 2) + 1"
  by (subst compute_bitlen) simp

lemma bitlen_1: "bitlen 1 = 1"
  by (subst compute_bitlen) simp

lemmas float_eval = ilog2_def bitlen_eval bitlen_1 pow2_def ulp_def

lemma round_half_even_tie:
  assumes "\<bar>q - of_int m\<bar> = 1 / 2" and "even m"
  shows "round_half_even q = m"
proof (cases "of_int m \<le> q")
  case True
  with assms(1) have q: "q = of_int m + 1 / 2" by simp
  then have "\<lfloor>q\<rfloor> = m" by (intro floor_unique) simp_all
  with q assms(2) show ?thesis by (simp add: round_half_even_def)
next
  case False
  with assms(1) have q: "q = of_int (m - 1) + 1 / 2" by simp
  then have "\<lfloor>q\<rfloor> = m - 1" by (intro floor_unique) simp_all
  with q assms(2) show ?thesis by (simp add: round_half_even_def)
qed

lemma double_round_eq:
  assumes "x \<noteq> 0" and "round_half_even (\<bar>x\<bar> / ulp \<bar>x\<bar>) = m"
  shows "double_round x = sgn x * (of_int m * ulp \<bar>x\<bar>)"
  using assms by (simp add: double_round_def)

lemma now_ms_tick_before: "now_ms tick_before = 1700000000999"
proof -
  have u1: "ulp \<bar>tick_before\<bar> = 1 / 4194304"
    by (simp add: tick_before_def float_eval)
  have m1: "round_half_even (\<bar>tick_before\<bar> / ulp \<bar>tick_before\<bar>) = 7130316804192626"
    unfolding u1 by (rule round_half_even_eq) (simp add: tick_before_def)
  have nz1: "tick_before \<noteq> 0"
    by (simp add: tick_before_def)
  have d: "double_round tick_before = 3565158402096313 / 2097152"
    unfolding double_round_eq [OF nz1 m1] u1 by (simp add: tick_before_def)
  have u2: "ulp \<bar>3565158402096313 / 2097152 * 1000\<bar> = 1 / 4096"
    by (simp add: float_eval)
  have m2: "round_half_even (\<bar>3565158402096313 / 2097152 * 1000\<bar> / ulp \<bar>3565158402096313 / 2097152 * 1000\<bar>) = 6963200004094361"
    unfolding u2 by (rule round_half_even_eq) simp
  have nz2: "(3565158402096313 / 2097152 * 1000 :: real) \<noteq> 0"
    by simp
  have p: "double_round (3565158402096313 / 2097152 * 1000) = 6963200004094361 / 4096"
    unfolding double_round_eq [OF nz2 m2] u2 by simp
  show ?thesis
    unfolding now_ms_def d p by (simp add: float_int_def)
qed

lemma now_ms_tick_after: "now_ms tick_after = 1700000001000"
proof -
  have u1: "ulp \<bar>tick_after\<bar> = 1 / 4194304"
    by (simp add: tick_after_def float_eval)
  have m1: "round_half_even (\<bar>tick_after\<bar> / ulp \<bar>tick_after\<bar>) = 7130316804195982"
    unfolding u1 by (rule round_half_even_eq) (simp add: tick_after_def)
  have nz1: "tick_after \<noteq> 0"
    by (simp add: tick_after_def)
  have d: "double_round tick_after = 3565158402097991 / 2097152"
    unfolding double_round_eq [OF nz1 m1] u1 by (simp add: tick_after_def)
  have u2: "ulp \<bar>3565158402097991 / 2097152 * 1000\<bar> = 1 / 4096"
    by (simp add: float_eval)
  have m2: "round_half_even (\<bar>3565158402097991 / 2097152 * 1000\<bar> / ulp \<bar>3565158402097991 / 2097152 * 1000\<bar>) = 6963200004097639"
    unfolding u2 by (rule round_half_even_eq) simp
  have nz2: "(3565158402097991 / 2097152 * 1000 :: real) \<noteq> 0"
    by simp
  have p: "double_round (3565158402097991 / 2097152 * 1000) = 6963200004097639 / 4096"
    unfolding double_round_eq [OF nz2 m2] u2 by simp
  show ?thesis
    unfolding now_ms_def d p by (simp add: float_int_def)
qed

lemma now_ms_demo_time: "now_ms demo_time = 1700000000250"
proof -
  have u1: "ulp \<bar>demo_time\<bar> = 1 / 4194304"
    by (simp add: demo_time_def float_eval)
  have m1: "round_half_even (\<bar>demo_time\<bar> / ulp \<bar>demo_time\<bar>) = 7130316801048576"
    unfolding u1 by (rule round_half_even_eq) (simp add: demo_time_def)
  have nz1: "demo_time \<noteq> 0"
    by (simp add: demo_time_def)
  have d: "double_round demo_time = 6800000001 / 4"
    unfolding double_round_eq [OF nz1 m1] u1 by (simp add: demo_time_def)
  have u2: "ulp \<bar>6800000001 / 4 * 1000\<bar> = 1 / 4096"
    by (simp add: float_eval)
  have m2: "round_half_even (\<bar>6800000001 / 4 * 1000\<bar> / ulp \<bar>6800000001 / 4 * 1000\<bar>) = 6963200001024000"
    unfolding u2 by (rule round_half_even_eq) simp
  have nz2: "(6800000001 / 4 * 1000 :: real) \<noteq> 0"
    by simp
  have p: "double_round (6800000001 / 4 * 1000) = 1700000000250"
    unfolding double_round_eq [OF nz2 m2] u2 by simp
  show ?thesis
    unfolding now_ms_def d p by (simp add: float_int_def)
qed

lemma now_ms_round_down: "now_ms round_down_time = 1700000000027"
proof -
  have u1: "ulp \<bar>round_down_time\<bar> = 1 / 4194304"
    by (simp add: round_down_time_def float_eval)
  have m1: "round_half_even (\<bar>round_down_time\<bar> / ulp \<bar>round_down_time\<bar>) = 7130316800117439"
    unfolding u1 by (rule round_half_even_eq) (simp add: round_down_time_def)
  have nz1: "round_down_time \<noteq> 0"
    by (simp add: round_down_time_def)
  have d: "double_round round_down_time = 7130316800117439 / 4194304"
    unfolding double_round_eq [OF nz1 m1] u1 by (simp add: round_down_time_def)
  have u2: "ulp \<bar>7130316800117439 / 4194304 * 1000\<bar> = 1 / 4096"
    by (simp add: float_eval)
  have m2: "round_half_even (\<bar>7130316800117439 / 4194304 * 1000\<bar> / ulp \<bar>7130316800117439 / 4194304 * 1000\<bar>) = 6963200000114687"
    unfolding u2 by (rule round_half_even_eq) simp
  have nz2: "(7130316800117439 / 4194304 * 1000 :: real) \<noteq> 0"
    by simp
  have p: "double_round (7130316800117439 / 4194304 * 1000) = 6963200000114687 / 4096"
    unfolding double_round_eq [OF nz2 m2] u2 by simp
  show ?thesis
    unfolding now_ms_def d p by (simp add: float_int_def)
qed

lemma now_ms_round_up: "now_ms round_up_time = 1700000000028"
proof -
  have u1: "ulp \<bar>round_up_time\<bar> = 1 / 4194304"
    by (simp add: round_up_time_def float_eval)
  have m1: "round_half_even (\<bar>round_up_time\<bar> / ulp \<bar>round_up_time\<bar>) = 7130316800117440"
    unfolding u1 by (rule round_half_even_eq) (simp add: round_up_time_def)
  have nz1: "round_up_time \<noteq> 0"
    by (simp add: round_up_time_def)
  have d: "double_round round_up_time = 111411200001835 / 65536"
    unfolding double_round_eq [OF nz1 m1] u1 by (simp add: round_up_time_def)
  have u2: "ulp \<bar>111411200001835 / 65536 * 1000\<bar> = 1 / 4096"
    by (simp add: float_eval)
  have m2: "round_half_even (\<bar>111411200001835 / 65536 * 1000\<bar> / ulp \<bar>111411200001835 / 65536 * 1000\<bar>) = 6963200000114688"
    unfolding u2 by (rule round_half_even_tie) simp_all
  have nz2: "(111411200001835 / 65536 * 1000 :: real) \<noteq> 0"
    by simp
  have p: "double_round (111411200001835 / 65536 * 1000) = 1700000000028"
    unfolding double_round_eq [OF nz2 m2] u2 by simp
  show ?thesis
    unfolding now_ms_def d p by (simp add: float_int_def)
qed

section \<open>Registration: no face record\<close>

text \<open>
  C3. When the registration request reaches the recognition call and the response of
  \<^verbatim>\<open>index_faces\<close> has no face record (its \<^verbatim>\<open>FaceRecords\<close> entry is absent or empty),
  the handler answers 422 with the message "No face detected or poor quality.", whatever
  the attributes of the request are, and the only collaborator call of the invocation is
  the recognition call: nothing is written to the store.
\<close>

theorem register_no_face_422:
  assumes "register_request env event = Inr (patient_id, attrs, img_bytes)"
    and "index_faces env (index_faces_args env img_bytes patient_id) = Inr idx"
    and "py_get idx ''FaceRecords'' PNone = Inr records"
    and "\<not> truthy records"
  shows "register_handler env event =
           ([IndexFaces (index_faces_args env img_bytes patient_id)],
            Inr (json_response 422 (PDict [(''message'', PStr ''No face detected or poor quality.'')])))
         \<and> (\<forall>args. PutItem args \<notin> set (fst (register_handler env event)))"
proof -
  have "register_try env event =
          ([IndexFaces (index_faces_args env img_bytes patient_id)],
           Inr (json_response 422 (PDict [(''message'', PStr ''No face detected or poor quality.'')])))"
    using assms by (simp add: register_try_unfold resp_json_response)
  then show ?thesis
    by (simp add: register_handler_def on_exception_pair)
qed

theorem register_no_face_422_witness:
  "register_request no_face_env demo_event
     = Inr (PStr ''P-1'', PDict [(''name'', PStr ''A''), (''age'', PInt 30)], [65, 66, 67])
   \<and> index_faces no_face_env (index_faces_args no_face_env [65, 66, 67] (PStr ''P-1''))
     = Inr (PDict [(''FaceRecords'', PList [])])
   \<and> register_handler no_face_env demo_event
     = ([IndexFaces (PDict [(''CollectionId'', PStr ''patients''),
            (''Image'', PDict [(''Bytes'', PBytes [65, 66, 67])]),
            (''ExternalImageId'', PStr ''P-1''),
            (''DetectionAttributes'', PList [PStr ''DEFAULT'']),
            (''MaxFaces'', PInt 1),
            (''QualityFilter'', PStr ''AUTO'')])],
        Inr \<lparr>statusCode = 422, headers = [(''Content-Type'', ''application/json'')],
             body = Json (PDict [(''message'', PStr ''No face detected or poor quality.'')])\<rparr>)"
  using register_no_face_422
    [of no_face_env demo_event
        "PStr ''P-1''" "PDict [(''name'', PStr ''A''), (''age'', PInt 30)]" "[65, 66, 67]"
        "PDict [(''FaceRecords'', PList [])]" "PList []"]
  by (simp add: demo_eval no_face_env_def)

section \<open>Identification: no match, and a match without a record\<close>

text \<open>
  C4. When the identification request reaches the recognition call and the response of
  \<^verbatim>\<open>search_faces_by_image\<close> has no match (its \<^verbatim>\<open>FaceMatches\<close> entry is absent or
  empty), the handler answers 404 with the message "No confident match", and the only
  collaborator call of the invocation is the recognition call: the store is not queried.
\<close>

theorem identify_no_match_404:
  assumes "identify_request env event = Inr img_bytes"
    and "search_faces_by_image env (search_args env img_bytes) = Inr res"
    and "py_get res ''FaceMatches'' PNone = Inr matches"
    and "\<not> truthy matches"
  shows "identify_handler env event =
           ([SearchFacesByImage (search_args env img_bytes)],
            Inr (json_response 404 (PDict [(''message'', PStr ''No confident match'')])))
         \<and> (\<forall>args. Query args \<notin> set (fst (identify_handler env event)))"
proof -
  have "identify_try env event =
          ([SearchFacesByImage (search_args env img_bytes)],
           Inr (json_response 404 (PDict [(''message'', PStr ''No confident match'')])))"
    using assms by (simp add: identify_try_unfold resp_json_response)
  then show ?thesis
    by (simp add: identify_handler_def on_exception_pair)
qed

theorem identify_no_match_404_witness:
  "identify_request no_match_env identify_event = Inr [65, 66, 67]
   \<and> search_faces_by_image no_match_env (search_args no_match_env [65, 66, 67])
     = Inr (PDict [(''FaceMatches'', PList [])])
   \<and> identify_handler no_match_env identify_event
     = ([SearchFacesByImage (PDict [(''CollectionId'', PStr ''patients''),
            (''Image'', PDict [(''Bytes'', PBytes [65, 66, 67])]),
            (''FaceMatchThreshold'', PFloat 95),
            (''MaxFaces'', PInt 1)])],
        Inr \<lparr>statusCode = 404, headers = [(''Content-Type'', ''application/json'')],
             body = Json (PDict [(''message'', PStr ''No confident match'')])\<rparr>)"
  using identify_no_match_404
    [of no_match_env identify_event "[65, 66, 67]" "PDict [(''FaceMatches'', PList [])]" "PList []"]
  by (simp add: demo_eval no_match_env_def identify_event_def)

text \<open>
  C5. When the recognition service returns a match (a first match with a face id and a
  similarity) and the response of the store's query on the index \<^verbatim>\<open>face_id-index\<close> for
  that face id has no record (its \<^verbatim>\<open>Items\<close> entry is absent or empty), the handler
  answers 404 with the message "Face mapped but no patient record".
\<close>

theorem identify_no_record_404:
  assumes "identify_request env event = Inr img_bytes"
    and "search_faces_by_image env (search_args env img_bytes) = Inr res"
    and "py_get res ''FaceMatches'' PNone = Inr matches"
    and "truthy matches"
    and "first_match res = Inr (face_id, similarity)"
    and "query env (query_args env face_id) = Inr q"
    and "py_get q ''Items'' PNone = Inr items"
    and "\<not> truthy items"
  shows "identify_handler env event =
           ([SearchFacesByImage (search_args env img_bytes), Query (query_args env face_id)],
            Inr (json_response 404 (PDict [(''message'', PStr ''Face mapped but no patient record'')])))"
proof -
  have "identify_try env event =
          ([SearchFacesByImage (search_args env img_bytes), Query (query_args env face_id)],
           Inr (json_response 404 (PDict [(''message'', PStr ''Face mapped but no patient record'')])))"
    using assms by (simp add: identify_try_unfold resp_json_response)
  then show ?thesis
    by (simp add: identify_handler_def on_exception_pair)
qed

theorem identify_no_record_404_witness:
  "identify_request no_record_env identify_event = Inr [65, 66, 67]
   \<and> first_match (PDict [(''FaceMatches'',
         PList [PDict [(''Face'', PDict [(''FaceId'', PStr ''face-1'')]),
                       (''Similarity'', PFloat 97.5)]])])
     = Inr (PStr ''face-1'', PFloat 97.5)
   \<and> query no_record_env (query_args no_record_env (PStr ''face-1''))
     = Inr (PDict [(''Items'', PList [])])
   \<and> identify_handler no_record_env identify_event
     = ([SearchFacesByImage (PDict [(''CollectionId'', PStr ''patients''),
            (''Image'', PDict [(''Bytes'', PBytes [65, 66, 67])]),
            (''FaceMatchThreshold'', PFloat 95),
            (''MaxFaces'', PInt 1)]),
         Query (PDict [(''TableName'', PStr ''patients-table''),
            (''IndexName'', PStr ''face_id-index''),
            (''KeyConditionExpression'', PStr ''face_id = :f''),
            (''ExpressionAttributeValues'', PDict [('':f'', PDict [(''S'', PStr ''face-1'')])]),
            (''Limit'', PInt 1)])],
        Inr \<lparr>statusCode = 404, headers = [(''Content-Type'', ''application/json'')],
             body = Json (PDict [(''message'', PStr ''Face mapped but no patient record'')])\<rparr>)"
  using identify_no_record_404
    [of no_record_env identify_event "[65, 66, 67]"
        "PDict [(''FaceMatches'',
           PList [PDict [(''Face'', PDict [(''FaceId'', PStr ''face-1'')]),
                         (''Similarity'', PFloat 97.5)]])]"
        "PList [PDict [(''Face'', PDict [(''FaceId'', PStr ''face-1'')]),
                       (''Similarity'', PFloat 97.5)]]"
        "PStr ''face-1''" "PFloat 97.5" "PDict [(''Items'', PList [])]" "PList []"]
  by (simp add: demo_eval no_record_env_def identify_event_def first_match_def)

section \<open>Nothing leaves the handlers but a response\<close>

lemma register_try_status:
  "register_try env event = (cs, Inr r) \<Longrightarrow> statusCode r = 201 \<or> statusCode r = 422"
  by (auto simp add: register_try_unfold resp_def ebind_def
      split: sum.splits prod.splits if_splits)

lemma identify_try_status:
  "identify_try env event = (cs, Inr r) \<Longrightarrow> statusCode r = 200 \<or> statusCode r = 404"
  by (auto simp add: identify_try_unfold resp_def ebind_def
      split: sum.splits prod.splits if_splits)

text \<open>
  C8. For every event and every behaviour of the environment (the collaborators may return
  any value or raise any exception), each handler returns a response: no exception
  leaves it. The response is the one its \<^verbatim>\<open>try\<close> block returned, whose status is one of
  the documented outcomes (201 or 422 for registration, 200 or 404 for identification),
  or, when the block raised \<open>e\<close>, status 500 with the body \<^verbatim>\<open>{"error": str(e)}\<close>.
\<close>

theorem handlers_always_respond:
  "(\<exists>r. snd (register_handler env event) = Inr r \<and>
      (case snd (register_try env event) of
         Inr r' \<Rightarrow> r = r' \<and> (statusCode r = 201 \<or> statusCode r = 422)
       | Inl e \<Rightarrow> r = json_response 500 (PDict [(''error'', PStr (str_exn e))])))
   \<and> (\<exists>r. snd (identify_handler env event) = Inr r \<and>
      (case snd (identify_try env event) of
         Inr r' \<Rightarrow> r = r' \<and> (statusCode r = 200 \<or> statusCode r = 404)
       | Inl e \<Rightarrow> r = json_response 500 (PDict [(''error'', PStr (str_exn e))])))"
proof
  obtain cs m where run: "register_try env event = (cs, m)"
    by (cases "register_try env event")
  show "\<exists>r. snd (register_handler env event) = Inr r \<and>
      (case snd (register_try env event) of
         Inr r' \<Rightarrow> r = r' \<and> (statusCode r = 201 \<or> statusCode r = 422)
       | Inl e \<Rightarrow> r = json_response 500 (PDict [(''error'', PStr (str_exn e))]))"
  proof (cases m)
    case (Inl e)
    with run show ?thesis
      by (simp add: register_handler_def on_exception_pair)
  next
    case (Inr r)
    with run register_try_status [of env event cs r] show ?thesis
      by (simp add: register_handler_def on_exception_pair)
  qed
next
  obtain cs m where run: "identify_try env event = (cs, m)"
    by (cases "identify_try env event")
  show "\<exists>r. snd (identify_handler env event) = Inr r \<and>
      (case snd (identify_try env event) of
         Inr r' \<Rightarrow> r = r' \<and> (statusCode r = 200 \<or> statusCode r = 404)
       | Inl e \<Rightarrow> r = json_response 500 (PDict [(''error'', PStr (str_exn e))]))"
  proof (cases m)
    case (Inl e)
    with run show ?thesis
      by (simp add: identify_handler_def on_exception_pair)
  next
    case (Inr r)
    with run identify_try_status [of env event cs r] show ?thesis
      by (simp add: identify_handler_def on_exception_pair)
  qed
qed

theorem handlers_always_respond_witness:
  "snd (register_try throttled_env demo_event) = Inl (OtherError ''ClientError'' ''Rate exceeded'')
   \<and> snd (register_handler throttled_env demo_event)
     = Inr \<lparr>statusCode = 500, headers = [(''Content-Type'', ''application/json'')],
            body = Json (PDict [(''error'', PStr ''Rate exceeded'')])\<rparr>
   \<and> snd (identify_try throttled_env identify_event) = Inl (OtherError ''ClientError'' ''Rate exceeded'')
   \<and> snd (identify_handler throttled_env identify_event)
     = Inr \<lparr>statusCode = 500, headers = [(''Content-Type'', ''application/json'')],
            body = Json (PDict [(''error'', PStr ''Rate exceeded'')])\<rparr>"
proof -
  have reg: "snd (register_try throttled_env demo_event) = Inl (OtherError ''ClientError'' ''Rate exceeded'')"
    by (simp add: register_try_unfold demo_eval throttled_env_def)
  have ide: "snd (identify_try throttled_env identify_event) = Inl (OtherError ''ClientError'' ''Rate exceeded'')"
    by (simp add: identify_try_unfold demo_eval throttled_env_def identify_event_def)
  from handlers_always_respond [of throttled_env demo_event] reg
  have "snd (register_handler throttled_env demo_event)
     = Inr \<lparr>statusCode = 500, headers = [(''Content-Type'', ''application/json'')],
            body = Json (PDict [(''error'', PStr ''Rate exceeded'')])\<rparr>"
    by (auto simp add: json_response_def)
  moreover from handlers_always_respond [of throttled_env identify_event] ide
  have "snd (identify_handler throttled_env identify_event)
     = Inr \<lparr>statusCode = 500, headers = [(''Content-Type'', ''application/json'')],
            body = Json (PDict [(''error'', PStr ''Rate exceeded'')])\<rparr>"
    by (auto simp add: json_response_def)
  ultimately show ?thesis using reg ide by simp
qed

section \<open>The persisted record\<close>

lemma str_attr_Cons:
  "str_attr ((k', v) # kvs) k =
     (if k = k' then (case v of PStr s \<Rightarrow> Some s | _ \<Rightarrow> None) else str_attr kvs k)"
  by (simp add: str_attr_def)

lemma str_attr_outside: "k \<notin> fst ` set kvs \<Longrightarrow> str_attr kvs k = None"
  by (simp add: str_attr_def map_of_eq_None_iff [THEN iffD2])

lemma map_of_merge_attrs:
  "distinct (map fst kvs) \<Longrightarrow>
     map_of (merge_attrs kvs item) k =
       (case str_attr kvs k of
          Some s \<Rightarrow> Some (PDict [(''S'', PStr s)])
        | None \<Rightarrow> map_of item k)"
proof (induction kvs arbitrary: item)
  case Nil
  show ?case by (simp add: str_attr_def)
next
  case (Cons kv kvs)
  obtain k' v where kv: "kv = (k', v)" by (cases kv)
  from Cons.prems kv have fresh: "k' \<notin> fst ` set kvs" and rest: "distinct (map fst kvs)"
    by simp_all
  show ?case
  proof (cases "k = k'")
    case True
    with fresh have "str_attr kvs k = None" by (simp add: str_attr_outside)
    with True kv Cons.IH [OF rest] show ?thesis
      by (cases v) (simp_all add: str_attr_Cons setitem_def update_conv')
  next
    case False
    with kv Cons.IH [OF rest] show ?thesis
      by (simp add: str_attr_Cons setitem_def update_conv' split: option.splits)
  qed
qed

lemma fst_on_exception: "fst (on_exception r) = fst r"
  by (cases r) (simp add: on_exception_pair split: sum.splits)

lemma put_item_call:
  assumes "PutItem args \<in> set (fst (register_handler env event))"
    and "register_request env event = Inr (patient_id, attrs, img_bytes)"
  shows "\<exists>idx face_id item.
           index_faces env (index_faces_args env img_bytes patient_id) = Inr idx \<and>
           first_face_id idx = Inr face_id \<and>
           register_item env patient_id face_id attrs = Inr item \<and>
           args = put_item_args env item \<and>
           fst (register_handler env event) =
             [IndexFaces (index_faces_args env img_bytes patient_id), PutItem (put_item_args env item)] \<and>
           snd (register_try env event) =
             ebind (put_item env (put_item_args env item)) (\<lambda>out.
               resp 201 (PDict [(''patient_id'', patient_id), (''face_id'', face_id)]))"
  using assms
  by (auto simp add: register_handler_def fst_on_exception register_try_unfold ebind_def
      split: sum.splits prod.splits if_splits)

text \<open>
  C6. In every registration invocation that writes a record, with a request whose
  attributes are a mapping \<open>attrs\<close> (a dict: its keys are distinct), the item handed to
  \<^verbatim>\<open>put_item\<close> is built without an error and holds, under every key where \<open>attrs\<close>
  has a string \<open>s\<close>, the field \<^verbatim>\<open>{'S': s}\<close>; under every other key it holds what the four
  core fields alone give, so an entry whose value is not a string leaves no trace and
  does not stop the registration.
\<close>

theorem persisted_string_attributes:
  assumes "PutItem args \<in> set (fst (register_handler env event))"
    and "register_request env event = Inr (patient_id, PDict attrs, img_bytes)"
    and "distinct (map fst attrs)"
  shows "\<exists>face_id item.
           register_item env patient_id face_id (PDict attrs) = Inr item \<and>
           args = put_item_args env item \<and>
           (\<forall>k s. map_of attrs k = Some (PStr s) \<longrightarrow> map_of item k = Some (PDict [(''S'', PStr s)])) \<and>
           (\<forall>k. str_attr attrs k = None \<longrightarrow>
                map_of item k = map_of (core_item env patient_id face_id) k)"
proof -
  from put_item_call [OF assms(1,2)] obtain face_id item where
    item: "register_item env patient_id face_id (PDict attrs) = Inr item"
    and args: "args = put_item_args env item"
    by blast
  from item have eq: "item = merge_attrs attrs (core_item env patient_id face_id)"
    by (simp add: register_item_def ebind_def)
  have "\<forall>k s. map_of attrs k = Some (PStr s) \<longrightarrow> map_of item k = Some (PDict [(''S'', PStr s)])"
    by (simp add: eq map_of_merge_attrs [OF assms(3)] str_attr_def)
  moreover have "\<forall>k. str_attr attrs k = None \<longrightarrow>
      map_of item k = map_of (core_item env patient_id face_id) k"
    by (simp add: eq map_of_merge_attrs [OF assms(3)])
  ultimately show ?thesis using item args by blast
qed

lemma demo_register_run:
  "register_handler demo_env demo_event =
     ([IndexFaces (PDict [(''CollectionId'', PStr ''patients''),
          (''Image'', PDict [(''Bytes'', PBytes [65, 66, 67])]),
          (''ExternalImageId'', PStr ''P-1''),
          (''DetectionAttributes'', PList [PStr ''DEFAULT'']),
          (''MaxFaces'', PInt 1),
          (''QualityFilter'', PStr ''AUTO'')]),
       PutItem (PDict [(''TableName'', PStr ''patients-table''),
          (''Item'', PDict [(''patient_id'', PDict [(''S'', PStr ''P-1'')]),
                            (''face_id'', PDict [(''S'', PStr ''face-1'')]),
                            (''created_at'', PDict [(''N'', PStr ''1700000000250'')]),
                            (''updated_at'', PDict [(''N'', PStr ''1700000000250'')]),
                            (''name'', PDict [(''S'', PStr ''A'')])])])],
      Inr \<lparr>statusCode = 201, headers = [(''Content-Type'', ''application/json'')],
           body = Json (PDict [(''patient_id'', PStr ''P-1''), (''face_id'', PStr ''face-1'')])\<rparr>)"
  by (simp add: register_handler_def register_try_unfold on_exception_pair demo_eval
      first_face_id_def register_item_def core_item_def setitem_def now_ms_demo_time
      str_int_def digit_char_def resp_json_response)

theorem persisted_string_attributes_witness:
  "PutItem (PDict [(''TableName'', PStr ''patients-table''),
          (''Item'', PDict [(''patient_id'', PDict [(''S'', PStr ''P-1'')]),
                            (''face_id'', PDict [(''S'', PStr ''face-1'')]),
                            (''created_at'', PDict [(''N'', PStr ''1700000000250'')]),
                            (''updated_at'', PDict [(''N'', PStr ''1700000000250'')]),
                            (''name'', PDict [(''S'', PStr ''A'')])])])
     \<in> set (fst (register_handler demo_env demo_event))
   \<and> register_request demo_env demo_event
     = Inr (PStr ''P-1'', PDict [(''name'', PStr ''A''), (''age'', PInt 30)], [65, 66, 67])
   \<and> distinct (map fst [(''name'', PStr ''A''), (''age'', PInt 30)])
   \<and> (\<exists>item. put_item_args demo_env item
         = PDict [(''TableName'', PStr ''patients-table''),
             (''Item'', PDict [(''patient_id'', PDict [(''S'', PStr ''P-1'')]),
                               (''face_id'', PDict [(''S'', PStr ''face-1'')]),
                               (''created_at'', PDict [(''N'', PStr ''1700000000250'')]),
                               (''updated_at'', PDict [(''N'', PStr ''1700000000250'')]),
                               (''name'', PDict [(''S'', PStr ''A'')])])]
       \<and> map_of item ''name'' = Some (PDict [(''S'', PStr ''A'')])
       \<and> map_of item ''age'' = None)"
proof -
  have call: "PutItem (PDict [(''TableName'', PStr ''patients-table''),
          (''Item'', PDict [(''patient_id'', PDict [(''S'', PStr ''P-1'')]),
                            (''face_id'', PDict [(''S'', PStr ''face-1'')]),
                            (''created_at'', PDict [(''N'', PStr ''1700000000250'')]),
                            (''updated_at'', PDict [(''N'', PStr ''1700000000250'')]),
                            (''name'', PDict [(''S'', PStr ''A'')])])])
     \<in> set (fst (register_handler demo_env demo_event))"
    by (simp add: demo_register_run)
  have req: "register_request demo_env demo_event
     = Inr (PStr ''P-1'', PDict [(''name'', PStr ''A''), (''age'', PInt 30)], [65, 66, 67])"
    by (simp add: demo_eval)
  have keys: "distinct (map fst [(''name'', PStr ''A''), (''age'', PInt 30)])"
    by simp
  from persisted_string_attributes [OF call req keys] obtain face_id item where
    "put_item_args demo_env item
         = PDict [(''TableName'', PStr ''patients-table''),
             (''Item'', PDict [(''patient_id'', PDict [(''S'', PStr ''P-1'')]),
                               (''face_id'', PDict [(''S'', PStr ''face-1'')]),
                               (''created_at'', PDict [(''N'', PStr ''1700000000250'')]),
                               (''updated_at'', PDict [(''N'', PStr ''1700000000250'')]),
                               (''name'', PDict [(''S'', PStr ''A'')])])]"
    and "map_of item ''name'' = Some (PDict [(''S'', PStr ''A'')])"
    and "map_of item ''age'' = map_of (core_item demo_env (PStr ''P-1'') face_id) ''age''"
    by (auto simp add: str_attr_def)
  then have "put_item_args demo_env item
         = PDict [(''TableName'', PStr ''patients-table''),
             (''Item'', PDict [(''patient_id'', PDict [(''S'', PStr ''P-1'')]),
                               (''face_id'', PDict [(''S'', PStr ''face-1'')]),
                               (''created_at'', PDict [(''N'', PStr ''1700000000250'')]),
                               (''updated_at'', PDict [(''N'', PStr ''1700000000250'')]),
                               (''name'', PDict [(''S'', PStr ''A'')])])]
       \<and> map_of item ''name'' = Some (PDict [(''S'', PStr ''A'')])
       \<and> map_of item ''age'' = None"
    by (simp add: core_item_def)
  then show ?thesis using call req keys by blast
qed

text \<open>
  C10. In every registration invocation that writes a record, with a request whose
  attributes mapping holds a string \<open>s\<close> under one of the keys \<^verbatim>\<open>patient_id\<close>,
  \<^verbatim>\<open>face_id\<close>, \<^verbatim>\<open>created_at\<close>, \<^verbatim>\<open>updated_at\<close>, the item handed to \<^verbatim>\<open>put_item\<close>
  holds \<^verbatim>\<open>{'S': s}\<close> under that key, in the place of the core field; and when the
  handler answers 201, the body is still the \<^verbatim>\<open>patient_id\<close> of the request and the
  \<^verbatim>\<open>face_id\<close> of the first face record the recognition service returned.
\<close>

theorem attributes_overwrite_core_fields:
  assumes "PutItem args \<in> set (fst (register_handler env event))"
    and "register_request env event = Inr (patient_id, PDict attrs, img_bytes)"
    and "distinct (map fst attrs)"
    and "k \<in> {''patient_id'', ''face_id'', ''created_at'', ''updated_at''}"
    and "map_of attrs k = Some (PStr s)"
  shows "\<exists>idx face_id item.
           index_faces env (index_faces_args env img_bytes patient_id) = Inr idx \<and>
           first_face_id idx = Inr face_id \<and>
           args = put_item_args env item \<and>
           map_of (core_item env patient_id face_id) k \<noteq> None \<and>
           map_of item k = Some (PDict [(''S'', PStr s)]) \<and>
           (\<forall>r. snd (register_handler env event) = Inr r \<and> statusCode r = 201 \<longrightarrow>
                r = json_response 201 (PDict [(''patient_id'', patient_id), (''face_id'', face_id)]))"
proof -
  from put_item_call [OF assms(1,2)] obtain idx face_id item where
    idx: "index_faces env (index_faces_args env img_bytes patient_id) = Inr idx"
    and face: "first_face_id idx = Inr face_id"
    and item: "register_item env patient_id face_id (PDict attrs) = Inr item"
    and args: "args = put_item_args env item"
    and run: "snd (register_try env event) =
             ebind (put_item env (put_item_args env item)) (\<lambda>out.
               resp 201 (PDict [(''patient_id'', patient_id), (''face_id'', face_id)]))"
    by blast
  from item have eq: "item = merge_attrs attrs (core_item env patient_id face_id)"
    by (simp add: register_item_def ebind_def)
  from assms(4) have core: "map_of (core_item env patient_id face_id) k \<noteq> None"
    by (auto simp add: core_item_def)
  from assms(5) have field: "map_of item k = Some (PDict [(''S'', PStr s)])"
    by (simp add: eq map_of_merge_attrs [OF assms(3)] str_attr_def)
  have "\<forall>r. snd (register_handler env event) = Inr r \<and> statusCode r = 201 \<longrightarrow>
          r = json_response 201 (PDict [(''patient_id'', patient_id), (''face_id'', face_id)])"
  proof (intro allI impI)
    fix r
    assume r: "snd (register_handler env event) = Inr r \<and> statusCode r = 201"
    obtain cs m where try_run: "register_try env event = (cs, m)"
      by (cases "register_try env event")
    with r run show "r = json_response 201 (PDict [(''patient_id'', patient_id), (''face_id'', face_id)])"
      by (cases m)
        (auto simp add: register_handler_def on_exception_pair json_response_def resp_def
          json_dumps_def ebind_def split: sum.splits if_splits)
  qed
  with idx face args core field show ?thesis by blast
qed

lemma override_register_run:
  "register_handler demo_env override_event =
     ([IndexFaces (PDict [(''CollectionId'', PStr ''patients''),
          (''Image'', PDict [(''Bytes'', PBytes [65, 66, 67])]),
          (''ExternalImageId'', PStr ''P-1''),
          (''DetectionAttributes'', PList [PStr ''DEFAULT'']),
          (''MaxFaces'', PInt 1),
          (''QualityFilter'', PStr ''AUTO'')]),
       PutItem (PDict [(''TableName'', PStr ''patients-table''),
          (''Item'', PDict [(''patient_id'', PDict [(''S'', PStr ''P-1'')]),
                            (''face_id'', PDict [(''S'', PStr ''other'')]),
                            (''created_at'', PDict [(''S'', PStr ''yesterday'')]),
                            (''updated_at'', PDict [(''N'', PStr ''1700000000250'')])])])],
      Inr \<lparr>statusCode = 201, headers = [(''Content-Type'', ''application/json'')],
           body = Json (PDict [(''patient_id'', PStr ''P-1''), (''face_id'', PStr ''face-1'')])\<rparr>)"
  by (simp add: register_handler_def register_try_unfold on_exception_pair demo_eval
      override_event_def first_face_id_def register_item_def core_item_def setitem_def
      now_ms_demo_time str_int_def digit_char_def resp_json_response)

theorem attributes_overwrite_core_fields_witness:
  "PutItem (PDict [(''TableName'', PStr ''patients-table''),
          (''Item'', PDict [(''patient_id'', PDict [(''S'', PStr ''P-1'')]),
                            (''face_id'', PDict [(''S'', PStr ''other'')]),
                            (''created_at'', PDict [(''S'', PStr ''yesterday'')]),
                            (''updated_at'', PDict [(''N'', PStr ''1700000000250'')])])])
     \<in> set (fst (register_handler demo_env override_event))
   \<and> register_request demo_env override_event
     = Inr (PStr ''P-1'',
            PDict [(''face_id'', PStr ''other''), (''created_at'', PStr ''yesterday'')],
            [65, 66, 67])
   \<and> distinct (map fst [(''face_id'', PStr ''other''), (''created_at'', PStr ''yesterday'')])
   \<and> map_of [(''face_id'', PStr ''other''), (''created_at'', PStr ''yesterday'')] ''face_id''
     = Some (PStr ''other'')
   \<and> (\<exists>item. put_item_args demo_env item
         = PDict [(''TableName'', PStr ''patients-table''),
             (''Item'', PDict [(''patient_id'', PDict [(''S'', PStr ''P-1'')]),
                               (''face_id'', PDict [(''S'', PStr ''other'')]),
                               (''created_at'', PDict [(''S'', PStr ''yesterday'')]),
                               (''updated_at'', PDict [(''N'', PStr ''1700000000250'')])])]
       \<and> map_of item ''face_id'' = Some (PDict [(''S'', PStr ''other'')]))
   \<and> snd (register_handler demo_env override_event)
     = Inr \<lparr>statusCode = 201, headers = [(''Content-Type'', ''application/json'')],
            body = Json (PDict [(''patient_id'', PStr ''P-1''), (''face_id'', PStr ''face-1'')])\<rparr>"
proof -
  have call: "PutItem (PDict [(''TableName'', PStr ''patients-table''),
          (''Item'', PDict [(''patient_id'', PDict [(''S'', PStr ''P-1'')]),
                            (''face_id'', PDict [(''S'', PStr ''other'')]),
                            (''created_at'', PDict [(''S'', PStr ''yesterday'')]),
                            (''updated_at'', PDict [(''N'', PStr ''1700000000250'')])])])
     \<in> set (fst (register_handler demo_env override_event))"
    by (simp add: override_register_run)
  have req: "register_request demo_env override_event
     = Inr (PStr ''P-1'',
            PDict [(''face_id'', PStr ''other''), (''created_at'', PStr ''yesterday'')],
            [65, 66, 67])"
    by (simp add: demo_eval override_event_def)
  have keys: "distinct (map fst [(''face_id'', PStr ''other''), (''created_at'', PStr ''yesterday'')])"
    by simp
  have core: "''face_id'' \<in> {''patient_id'', ''face_id'', ''created_at'', ''updated_at''}"
    by simp
  have entry: "map_of [(''face_id'', PStr ''other''), (''created_at'', PStr ''yesterday'')] ''face_id''
     = Some (PStr ''other'')"
    by simp
  from attributes_overwrite_core_fields [OF call req keys core entry] obtain item where
    "put_item_args demo_env item
         = PDict [(''TableName'', PStr ''patients-table''),
             (''Item'', PDict [(''patient_id'', PDict [(''S'', PStr ''P-1'')]),
                               (''face_id'', PDict [(''S'', PStr ''other'')]),
                               (''created_at'', PDict [(''S'', PStr ''yesterday'')]),
                               (''updated_at'', PDict [(''N'', PStr ''1700000000250'')])])]
       \<and> map_of item ''face_id'' = Some (PDict [(''S'', PStr ''other'')])"
    by auto
  moreover have "snd (register_handler demo_env override_event)
     = Inr \<lparr>statusCode = 201, headers = [(''Content-Type'', ''application/json'')],
            body = Json (PDict [(''patient_id'', PStr ''P-1''), (''face_id'', PStr ''face-1'')])\<rparr>"
    by (simp add: override_register_run)
  ultimately show ?thesis using call req keys entry by blast
qed

section \<open>The two timestamps\<close>

text \<open>
  C9, as the code has it. The handler calls \<^verbatim>\<open>_now_ms()\<close> twice, once for each field, and
  each call reads the clock. In every registration invocation that writes a record, with
  a request whose attributes mapping holds no string under \<^verbatim>\<open>created_at\<close> or
  \<^verbatim>\<open>updated_at\<close>, the item's \<^verbatim>\<open>created_at\<close> is the decimal text of what the first call
  returns and its \<^verbatim>\<open>updated_at\<close> that of the second; the two fields are equal exactly when
  the two calls return the same integer; and what a call returns for a clock reading \<open>t\<close>
  of at least one second is the time in milliseconds: it differs from \<open>1000 * t\<close> by less
  than one millisecond and the two roundings of the double arithmetic,
  \<open>1 + 1000 * t / 2\<^sup>5\<^sup>1\<close>.
\<close>

theorem timestamps_from_clock_reads:
  assumes "PutItem args \<in> set (fst (register_handler env event))"
    and "register_request env event = Inr (patient_id, PDict attrs, img_bytes)"
    and "distinct (map fst attrs)"
    and "str_attr attrs ''created_at'' = None"
    and "str_attr attrs ''updated_at'' = None"
  shows "\<exists>item.
           args = put_item_args env item \<and>
           map_of item ''created_at'' = Some (PDict [(''N'', PStr (str_int (now_ms (time_time env 0))))]) \<and>
           map_of item ''updated_at'' = Some (PDict [(''N'', PStr (str_int (now_ms (time_time env 1))))]) \<and>
           (same_timestamps item \<longleftrightarrow> now_ms (time_time env 0) = now_ms (time_time env 1)) \<and>
           (\<forall>n\<in>{0, 1}. 1 \<le> time_time env n \<longrightarrow>
              \<bar>real_of_int (now_ms (time_time env n)) - 1000 * time_time env n\<bar>
                < 1 + 1000 * time_time env n / 2 ^ 51)"
proof -
  from put_item_call [OF assms(1,2)] obtain face_id item where
    item: "register_item env patient_id face_id (PDict attrs) = Inr item"
    and args: "args = put_item_args env item"
    by blast
  from item have eq: "item = merge_attrs attrs (core_item env patient_id face_id)"
    by (simp add: register_item_def ebind_def)
  have created: "map_of item ''created_at'' =
      Some (PDict [(''N'', PStr (str_int (now_ms (time_time env 0))))])"
    by (simp add: eq map_of_merge_attrs [OF assms(3)] assms(4) core_item_def)
  have updated: "map_of item ''updated_at'' =
      Some (PDict [(''N'', PStr (str_int (now_ms (time_time env 1))))])"
    by (simp add: eq map_of_merge_attrs [OF assms(3)] assms(5) core_item_def)
  have "same_timestamps item \<longleftrightarrow>
      str_int (now_ms (time_time env 0)) = str_int (now_ms (time_time env 1))"
    by (simp add: same_timestamps_def created updated)
  also have "\<dots> \<longleftrightarrow> now_ms (time_time env 0) = now_ms (time_time env 1)"
    by (auto dest: str_int_inj)
  finally have same: "same_timestamps item \<longleftrightarrow>
      now_ms (time_time env 0) = now_ms (time_time env 1)" .
  have near: "\<forall>n\<in>{0, 1}. 1 \<le> time_time env n \<longrightarrow>
      \<bar>real_of_int (now_ms (time_time env n)) - 1000 * time_time env n\<bar>
        < 1 + 1000 * time_time env n / 2 ^ 51"
    by (intro ballI impI now_ms_near)
  from args created updated same near show ?thesis by blast
qed

theorem timestamps_from_clock_reads_witness:
  "PutItem (PDict [(''TableName'', PStr ''patients-table''),
          (''Item'', PDict [(''patient_id'', PDict [(''S'', PStr ''P-1'')]),
                            (''face_id'', PDict [(''S'', PStr ''face-1'')]),
                            (''created_at'', PDict [(''N'', PStr ''1700000000250'')]),
                            (''updated_at'', PDict [(''N'', PStr ''1700000000250'')]),
                            (''name'', PDict [(''S'', PStr ''A'')])])])
     \<in> set (fst (register_handler demo_env demo_event))
   \<and> register_request demo_env demo_event
     = Inr (PStr ''P-1'', PDict [(''name'', PStr ''A''), (''age'', PInt 30)], [65, 66, 67])
   \<and> distinct (map fst [(''name'', PStr ''A''), (''age'', PInt 30)])
   \<and> str_attr [(''name'', PStr ''A''), (''age'', PInt 30)] ''created_at'' = None
   \<and> str_attr [(''name'', PStr ''A''), (''age'', PInt 30)] ''updated_at'' = None
   \<and> 1 \<le> time_time demo_env 0
   \<and> now_ms (time_time demo_env 0) = 1700000000250
   \<and> now_ms (time_time demo_env 1) = 1700000000250
   \<and> (\<exists>item. put_item_args demo_env item
         = PDict [(''TableName'', PStr ''patients-table''),
             (''Item'', PDict [(''patient_id'', PDict [(''S'', PStr ''P-1'')]),
                               (''face_id'', PDict [(''S'', PStr ''face-1'')]),
                               (''created_at'', PDict [(''N'', PStr ''1700000000250'')]),
                               (''updated_at'', PDict [(''N'', PStr ''1700000000250'')]),
                               (''name'', PDict [(''S'', PStr ''A'')])])]
       \<and> map_of item ''created_at'' = Some (PDict [(''N'', PStr ''1700000000250'')])
       \<and> map_of item ''updated_at'' = Some (PDict [(''N'', PStr ''1700000000250'')])
       \<and> same_timestamps item)
   \<and> \<bar>real_of_int 1700000000250 - 1000 * time_time demo_env 0\<bar>
       < 1 + 1000 * time_time demo_env 0 / 2 ^ 51"
proof -
  have call: "PutItem (PDict [(''TableName'', PStr ''patients-table''),
          (''Item'', PDict [(''patient_id'', PDict [(''S'', PStr ''P-1'')]),
                            (''face_id'', PDict [(''S'', PStr ''face-1'')]),
                            (''created_at'', PDict [(''N'', PStr ''1700000000250'')]),
                            (''updated_at'', PDict [(''N'', PStr ''1700000000250'')]),
                            (''name'', PDict [(''S'', PStr ''A'')])])])
     \<in> set (fst (register_handler demo_env demo_event))"
    by (simp add: demo_register_run)
  have req: "register_request demo_env demo_event
     = Inr (PStr ''P-1'', PDict [(''name'', PStr ''A''), (''age'', PInt 30)], [65, 66, 67])"
    by (simp add: demo_eval)
  have keys: "distinct (map fst [(''name'', PStr ''A''), (''age'', PInt 30)])"
    by simp
  have none1: "str_attr [(''name'', PStr ''A''), (''age'', PInt 30)] ''created_at'' = None"
    by (simp add: str_attr_def)
  have none2: "str_attr [(''name'', PStr ''A''), (''age'', PInt 30)] ''updated_at'' = None"
    by (simp add: str_attr_def)
  have late: "1 \<le> time_time demo_env 0"
    by (simp add: demo_env_def demo_time_def)
  have ms0: "now_ms (time_time demo_env 0) = 1700000000250"
    by (simp add: demo_env_def now_ms_demo_time)
  have ms1: "now_ms (time_time demo_env 1) = 1700000000250"
    by (simp add: demo_env_def now_ms_demo_time)
  have dec: "str_int 1700000000250 = ''1700000000250''"
    by (simp add: str_int_def digit_char_def)
  from timestamps_from_clock_reads [OF call req keys none1 none2] obtain item where
    args: "PDict [(''TableName'', PStr ''patients-table''),
             (''Item'', PDict [(''patient_id'', PDict [(''S'', PStr ''P-1'')]),
                               (''face_id'', PDict [(''S'', PStr ''face-1'')]),
                               (''created_at'', PDict [(''N'', PStr ''1700000000250'')]),
                               (''updated_at'', PDict [(''N'', PStr ''1700000000250'')]),
                               (''name'', PDict [(''S'', PStr ''A'')])])]
           = put_item_args demo_env item"
    and created: "map_of item ''created_at''
           = Some (PDict [(''N'', PStr (str_int (now_ms (time_time demo_env 0))))])"
    and updated: "map_of item ''updated_at''
           = Some (PDict [(''N'', PStr (str_int (now_ms (time_time demo_env 1))))])"
    and same: "same_timestamps item \<longleftrightarrow>
           now_ms (time_time demo_env 0) = now_ms (time_time demo_env 1)"
    and near: "\<forall>n\<in>{0, 1}. 1 \<le> time_time demo_env n \<longrightarrow>
           \<bar>real_of_int (now_ms (time_time demo_env n)) - 1000 * time_time demo_env n\<bar>
             < 1 + 1000 * time_time demo_env n / 2 ^ 51"
    by blast
  from created have created': "map_of item ''created_at'' = Some (PDict [(''N'', PStr ''1700000000250'')])"
    by (simp only: ms0 dec)
  from updated have updated': "map_of item ''updated_at'' = Some (PDict [(''N'', PStr ''1700000000250'')])"
    by (simp only: ms1 dec)
  from same have same': "same_timestamps item"
    by (simp only: ms0 ms1)
  from near late have "\<bar>real_of_int (now_ms (time_time demo_env 0)) - 1000 * time_time demo_env 0\<bar>
      < 1 + 1000 * time_time demo_env 0 / 2 ^ 51"
    by blast
  then have near': "\<bar>real_of_int 1700000000250 - 1000 * time_time demo_env 0\<bar>
      < 1 + 1000 * time_time demo_env 0 / 2 ^ 51"
    by (simp only: ms0)
  from args [symmetric] created' updated' same' have
    "\<exists>item. put_item_args demo_env item
         = PDict [(''TableName'', PStr ''patients-table''),
             (''Item'', PDict [(''patient_id'', PDict [(''S'', PStr ''P-1'')]),
                               (''face_id'', PDict [(''S'', PStr ''face-1'')]),
                               (''created_at'', PDict [(''N'', PStr ''1700000000250'')]),
                               (''updated_at'', PDict [(''N'', PStr ''1700000000250'')]),
                               (''name'', PDict [(''S'', PStr ''A'')])])]
       \<and> map_of item ''created_at'' = Some (PDict [(''N'', PStr ''1700000000250'')])
       \<and> map_of item ''updated_at'' = Some (PDict [(''N'', PStr ''1700000000250'')])
       \<and> same_timestamps item"
    by blast
  with call req keys none1 none2 late ms0 ms1 near' show ?thesis by blast
qed

theorem timestamps_differ_counterexample:
  "register_handler tick_env demo_event =
     ([IndexFaces (PDict [(''CollectionId'', PStr ''patients''),
          (''Image'', PDict [(''Bytes'', PBytes [65, 66, 67])]),
          (''ExternalImageId'', PStr ''P-1''),
          (''DetectionAttributes'', PList [PStr ''DEFAULT'']),
          (''MaxFaces'', PInt 1),
          (''QualityFilter'', PStr ''AUTO'')]),
       PutItem (PDict [(''TableName'', PStr ''patients-table''),
          (''Item'', PDict [(''patient_id'', PDict [(''S'', PStr ''P-1'')]),
                            (''face_id'', PDict [(''S'', PStr ''face-1'')]),
                            (''created_at'', PDict [(''N'', PStr ''1700000000999'')]),
                            (''updated_at'', PDict [(''N'', PStr ''1700000001000'')]),
                            (''name'', PDict [(''S'', PStr ''A'')])])])],
      Inr \<lparr>statusCode = 201, headers = [(''Content-Type'', ''application/json'')],
           body = Json (PDict [(''patient_id'', PStr ''P-1''), (''face_id'', PStr ''face-1'')])\<rparr>)
   \<and> \<not> same_timestamps
          [(''patient_id'', PDict [(''S'', PStr ''P-1'')]),
           (''face_id'', PDict [(''S'', PStr ''face-1'')]),
           (''created_at'', PDict [(''N'', PStr ''1700000000999'')]),
           (''updated_at'', PDict [(''N'', PStr ''1700000001000'')]),
           (''name'', PDict [(''S'', PStr ''A'')])]"
  by (simp add: register_handler_def register_try_unfold on_exception_pair demo_eval
      tick_env_def first_face_id_def register_item_def core_item_def setitem_def
      now_ms_tick_before now_ms_tick_after str_int_def digit_char_def resp_json_response
      same_timestamps_def)

text \<open>
  Two clock reads within one millisecond can also give two integers: the floating-point
  product of the later reading with \<^verbatim>\<open>1000\<close> lies halfway between two doubles and rounds
  up to \<open>1700000000028\<close>, while the exact product is below it.
\<close>

lemma same_millisecond_reads_differ:
  "\<lfloor>1000 * round_down_time\<rfloor> = \<lfloor>1000 * round_up_time\<rfloor>
   \<and> now_ms round_down_time = 1700000000027
   \<and> now_ms round_up_time = 1700000000028"
  by (simp add: now_ms_round_down now_ms_round_up) (simp add: round_down_time_def round_up_time_def)

section \<open>Registration: the created outcome\<close>

lemma getitem_Inr: "getitem v k = Inr x \<Longrightarrow> \<exists>d. v = PDict d \<and> map_of d k = Some x"
  by (cases v) (auto split: option.splits)

lemma getitem0_truthy: "getitem0 v = Inr x \<Longrightarrow> truthy v"
  by (cases v) (auto split: list.splits)

lemma first_face_id_truthy:
  assumes "first_face_id idx = Inr face_id"
  shows "\<exists>records. py_get idx ''FaceRecords'' PNone = Inr records \<and> truthy records"
proof -
  from assms obtain records where rs: "getitem idx ''FaceRecords'' = Inr records"
    by (cases "getitem idx ''FaceRecords''") (simp_all add: first_face_id_def ebind_def)
  with assms obtain r where "getitem0 records = Inr r"
    by (cases "getitem0 records") (simp_all add: first_face_id_def ebind_def)
  then have "truthy records" by (rule getitem0_truthy)
  moreover from getitem_Inr [OF rs] have "py_get idx ''FaceRecords'' PNone = Inr records"
    by auto
  ultimately show ?thesis by blast
qed

text \<open>
  C1, as the code has it. When the body parses and holds \<^verbatim>\<open>image_base64\<close>, a
  \<^verbatim>\<open>patient_id\<close> that JSON can carry and attributes that are absent or a mapping, the
  base64 decodes, the recognition service returns a first face record with a face id that
  JSON can carry, and the write to the store returns without raising, the handler answers
  201 with the body \<^verbatim>\<open>{"patient_id": ..., "face_id": ...}\<close>: the \<^verbatim>\<open>patient_id\<close> of the
  request and the face id of that first face record.
\<close>

theorem register_created_201:
  assumes "register_request env event = Inr (patient_id, PDict attrs, img_bytes)"
    and "index_faces env (index_faces_args env img_bytes patient_id) = Inr idx"
    and "first_face_id idx = Inr face_id"
    and "put_item env (put_item_args env (merge_attrs attrs (core_item env patient_id face_id)))
           = Inr out"
    and "serialisable patient_id"
    and "serialisable face_id"
  shows "register_handler env event =
           ([IndexFaces (index_faces_args env img_bytes patient_id),
             PutItem (put_item_args env (merge_attrs attrs (core_item env patient_id face_id)))],
            Inr (json_response 201 (PDict [(''patient_id'', patient_id), (''face_id'', face_id)])))"
proof -
  from first_face_id_truthy [OF assms(3)] obtain records where
    "py_get idx ''FaceRecords'' PNone = Inr records" and "truthy records"
    by blast
  with assms have "register_try env event =
           ([IndexFaces (index_faces_args env img_bytes patient_id),
             PutItem (put_item_args env (merge_attrs attrs (core_item env patient_id face_id)))],
            Inr (json_response 201 (PDict [(''patient_id'', patient_id), (''face_id'', face_id)])))"
    by (simp add: register_try_unfold register_item_def ebind_def resp_json_response)
  then show ?thesis
    by (simp add: register_handler_def on_exception_pair)
qed

theorem register_created_201_witness:
  "register_request demo_env demo_event
     = Inr (PStr ''P-1'', PDict [(''name'', PStr ''A''), (''age'', PInt 30)], [65, 66, 67])
   \<and> first_face_id (PDict [(''FaceRecords'',
         PList [PDict [(''Face'', PDict [(''FaceId'', PStr ''face-1'')])]])])
     = Inr (PStr ''face-1'')
   \<and> serialisable (PStr ''P-1'') \<and> serialisable (PStr ''face-1'')
   \<and> register_handler demo_env demo_event =
     ([IndexFaces (PDict [(''CollectionId'', PStr ''patients''),
          (''Image'', PDict [(''Bytes'', PBytes [65, 66, 67])]),
          (''ExternalImageId'', PStr ''P-1''),
          (''DetectionAttributes'', PList [PStr ''DEFAULT'']),
          (''MaxFaces'', PInt 1),
          (''QualityFilter'', PStr ''AUTO'')]),
       PutItem (PDict [(''TableName'', PStr ''patients-table''),
          (''Item'', PDict [(''patient_id'', PDict [(''S'', PStr ''P-1'')]),
                            (''face_id'', PDict [(''S'', PStr ''face-1'')]),
                            (''created_at'', PDict [(''N'', PStr ''1700000000250'')]),
                            (''updated_at'', PDict [(''N'', PStr ''1700000000250'')]),
                            (''name'', PDict [(''S'', PStr ''A'')])])])],
      Inr \<lparr>statusCode = 201, headers = [(''Content-Type'', ''application/json'')],
           body = Json (PDict [(''patient_id'', PStr ''P-1''), (''face_id'', PStr ''face-1'')])\<rparr>)"
proof -
  have req: "register_request demo_env demo_event
     = Inr (PStr ''P-1'', PDict [(''name'', PStr ''A''), (''age'', PInt 30)], [65, 66, 67])"
    by (simp add: demo_eval)
  have idx: "index_faces demo_env (index_faces_args demo_env [65, 66, 67] (PStr ''P-1''))
     = Inr (PDict [(''FaceRecords'',
         PList [PDict [(''Face'', PDict [(''FaceId'', PStr ''face-1'')])]])])"
    by (simp add: demo_env_def)
  have face: "first_face_id (PDict [(''FaceRecords'',
         PList [PDict [(''Face'', PDict [(''FaceId'', PStr ''face-1'')])]])])
     = Inr (PStr ''face-1'')"
    by (simp add: first_face_id_def ebind_def)
  have store: "put_item demo_env (put_item_args demo_env
       (merge_attrs [(''name'', PStr ''A''), (''age'', PInt 30)]
          (core_item demo_env (PStr ''P-1'') (PStr ''face-1'')))) = Inr (PDict [])"
    by (simp add: demo_env_def)
  have pid: "serialisable (PStr ''P-1'')" and fid: "serialisable (PStr ''face-1'')"
    by simp_all
  from register_created_201 [OF req idx face store pid fid]
  have "register_handler demo_env demo_event =
     ([IndexFaces (PDict [(''CollectionId'', PStr ''patients''),
          (''Image'', PDict [(''Bytes'', PBytes [65, 66, 67])]),
          (''ExternalImageId'', PStr ''P-1''),
          (''DetectionAttributes'', PList [PStr ''DEFAULT'']),
          (''MaxFaces'', PInt 1),
          (''QualityFilter'', PStr ''AUTO'')]),
       PutItem (PDict [(''TableName'', PStr ''patients-table''),
          (''Item'', PDict [(''patient_id'', PDict [(''S'', PStr ''P-1'')]),
                            (''face_id'', PDict [(''S'', PStr ''face-1'')]),
                            (''created_at'', PDict [(''N'', PStr ''1700000000250'')]),
                            (''updated_at'', PDict [(''N'', PStr ''1700000000250'')]),
                            (''name'', PDict [(''S'', PStr ''A'')])])])],
      Inr \<lparr>statusCode = 201, headers = [(''Content-Type'', ''application/json'')],
           body = Json (PDict [(''patient_id'', PStr ''P-1''), (''face_id'', PStr ''face-1'')])\<rparr>)"
    by (simp add: demo_eval core_item_def setitem_def now_ms_demo_time str_int_def digit_char_def)
  with req face pid fid show ?thesis by simp
qed

theorem null_attributes_counterexample:
  "register_request demo_env null_attributes_event = Inr (PStr ''P-1'', PNone, [65, 66, 67])
   \<and> index_faces demo_env (index_faces_args demo_env [65, 66, 67] (PStr ''P-1''))
     = Inr (PDict [(''FaceRecords'',
         PList [PDict [(''Face'', PDict [(''FaceId'', PStr ''face-1'')])]])])
   \<and> first_face_id (PDict [(''FaceRecords'',
         PList [PDict [(''Face'', PDict [(''FaceId'', PStr ''face-1'')])]])])
     = Inr (PStr ''face-1'')
   \<and> register_handler demo_env null_attributes_event =
     ([IndexFaces (PDict [(''CollectionId'', PStr ''patients''),
          (''Image'', PDict [(''Bytes'', PBytes [65, 66, 67])]),
          (''ExternalImageId'', PStr ''P-1''),
          (''DetectionAttributes'', PList [PStr ''DEFAULT'']),
          (''MaxFaces'', PInt 1),
          (''QualityFilter'', PStr ''AUTO'')])],
      Inr \<lparr>statusCode = 500, headers = [(''Content-Type'', ''application/json'')],
           body = Json (PDict [(''error'',
             PStr (quoted ''NoneType'' @ '' object has no attribute '' @ quoted ''items''))])\<rparr>)"
  by (simp add: register_handler_def register_try_unfold on_exception_pair demo_eval
      null_attributes_event_def first_face_id_def register_item_def)

section \<open>Identification: the found outcome\<close>

lemma list_all_snd_update:
  "list_all P (map snd al) \<Longrightarrow> P v \<Longrightarrow> list_all P (map snd (AList.update k v al))"
  by (induction al) auto

lemma flatten_fields_result:
  assumes "distinct (map fst kvs)"
    and "list_all (\<lambda>(k, v). plain_value v \<noteq> None) kvs"
  shows "\<exists>result. flatten_fields kvs acc = Inr result \<and>
           (\<forall>k. map_of result k =
              (case map_of kvs k of Some v \<Rightarrow> plain_value v | None \<Rightarrow> map_of acc k))"
  using assms
proof (induction kvs arbitrary: acc)
  case Nil
  show ?case by simp
next
  case (Cons kv kvs)
  obtain k' v where kv: "kv = (k', v)" by (cases kv)
  from Cons.prems kv obtain x where x: "first_value v = Inr x"
    by (cases "first_value v") (simp_all add: plain_value_def)
  from Cons.prems kv have fresh: "map_of kvs k' = None"
    by (simp add: map_of_eq_None_iff)
  from Cons.prems kv have "distinct (map fst kvs)"
    and "list_all (\<lambda>(k, v). plain_value v \<noteq> None) kvs"
    by simp_all
  from Cons.IH [OF this, of "setitem acc k' x"] obtain result where
    run: "flatten_fields kvs (setitem acc k' x) = Inr result"
    and look: "\<forall>k. map_of result k =
              (case map_of kvs k of Some v \<Rightarrow> plain_value v | None \<Rightarrow> map_of (setitem acc k' x) k)"
    by blast
  from run kv x have "flatten_fields (kv # kvs) acc = Inr result"
    by (simp add: ebind_def)
  moreover from look fresh kv x
  have "\<forall>k. map_of result k =
          (case map_of (kv # kvs) k of Some v \<Rightarrow> plain_value v | None \<Rightarrow> map_of acc k)"
    by (simp add: setitem_def update_conv' plain_value_def split: option.splits)
  ultimately show ?case by blast
qed

lemma flatten_fields_serialisable:
  "flatten_fields kvs acc = Inr result \<Longrightarrow> json_fields kvs \<Longrightarrow>
     list_all serialisable (map snd acc) \<Longrightarrow> list_all serialisable (map snd result)"
proof (induction kvs arbitrary: acc)
  case Nil
  then show ?case by simp
next
  case (Cons kv kvs)
  obtain k' v where kv: "kv = (k', v)" by (cases kv)
  from Cons.prems(2) kv obtain x where x: "first_value v = Inr x" and ok: "serialisable x"
    by (cases "first_value v") (simp_all add: json_fields_def plain_value_def)
  from Cons.prems(1) kv x have run: "flatten_fields kvs (setitem acc k' x) = Inr result"
    by (simp add: ebind_def)
  from Cons.prems(2) kv have rest: "json_fields kvs"
    by (simp add: json_fields_def)
  from Cons.prems(3) ok have "list_all serialisable (map snd (setitem acc k' x))"
    by (simp add: setitem_def list_all_snd_update)
  with Cons.IH [OF run rest] show ?case .
qed

lemma json_fields_plain: "json_fields kvs \<Longrightarrow> list_all (\<lambda>(k, v). plain_value v \<noteq> None) kvs"
  by (induction kvs) (auto simp add: json_fields_def split: option.splits)

lemma includes_record_iff:
  "includes_record stored (Json (PDict result)) =
     (\<forall>kv \<in> set stored. case kv of (k, v) \<Rightarrow>
        plain_value v \<noteq> None \<and> map_of result k = plain_value v)"
  by (simp add: includes_record_def list_all_iff)

lemma first_match_truthy:
  assumes "first_match res = Inr (face_id, similarity)"
  shows "\<exists>matches. py_get res ''FaceMatches'' PNone = Inr matches \<and> truthy matches"
proof -
  from assms obtain matches where ms: "getitem res ''FaceMatches'' = Inr matches"
    by (cases "getitem res ''FaceMatches''") (simp_all add: first_match_def ebind_def)
  with assms obtain m where "getitem0 matches = Inr m"
    by (cases "getitem0 matches") (simp_all add: first_match_def ebind_def)
  then have "truthy matches" by (rule getitem0_truthy)
  moreover from getitem_Inr [OF ms] have "py_get res ''FaceMatches'' PNone = Inr matches"
    by auto
  ultimately show ?thesis by blast
qed

lemma first_item_truthy:
  assumes "first_item q = Inr item"
  shows "\<exists>items. py_get q ''Items'' PNone = Inr items \<and> truthy items"
proof -
  from assms obtain items where its: "getitem q ''Items'' = Inr items"
    by (cases "getitem q ''Items''") (simp_all add: first_item_def ebind_def)
  with assms have "getitem0 items = Inr item"
    by (simp add: first_item_def ebind_def)
  then have "truthy items" by (rule getitem0_truthy)
  moreover from getitem_Inr [OF its] have "py_get q ''Items'' PNone = Inr items"
    by auto
  ultimately show ?thesis by blast
qed

text \<open>
  C2, as the code has it. When the recognition service returns a first match with a face
  id and a similarity that JSON can carry, and the store's query returns a first record
  that is a mapping of typed fields (\<^verbatim>\<open>{'S': ...}\<close>, \<^verbatim>\<open>{'N': ...}\<close>, ...) whose plain
  values JSON can carry, the handler answers 200; the body holds \<^verbatim>\<open>similarity\<close>, equal to
  the similarity of the match, holds every stored field not named \<^verbatim>\<open>similarity\<close> with
  its plain value, and holds nothing else.
\<close>

theorem identify_found_200:
  assumes "identify_request env event = Inr img_bytes"
    and "search_faces_by_image env (search_args env img_bytes) = Inr res"
    and "first_match res = Inr (face_id, similarity)"
    and "query env (query_args env face_id) = Inr q"
    and "first_item q = Inr (PDict stored)"
    and "distinct (map fst stored)"
    and "json_fields stored"
    and "serialisable similarity"
  shows "\<exists>result.
           identify_handler env event =
             ([SearchFacesByImage (search_args env img_bytes), Query (query_args env face_id)],
              Inr (json_response 200 (PDict result))) \<and>
           map_of result ''similarity'' = Some similarity \<and>
           includes_record (filter (\<lambda>(k, v). k \<noteq> ''similarity'') stored) (Json (PDict result)) \<and>
           (\<forall>k. k \<noteq> ''similarity'' \<and> map_of stored k = None \<longrightarrow> map_of result k = None)"
proof -
  from first_match_truthy [OF assms(3)] obtain matches where
    ms: "py_get res ''FaceMatches'' PNone = Inr matches" "truthy matches"
    by blast
  from first_item_truthy [OF assms(5)] obtain items where
    its: "py_get q ''Items'' PNone = Inr items" "truthy items"
    by blast
  from flatten_fields_result [OF assms(6) json_fields_plain [OF assms(7)], of "[]"]
  obtain flat where
    flat: "flatten_fields stored [] = Inr flat"
    and look0: "\<forall>k. map_of flat k =
                 (case map_of stored k of Some v \<Rightarrow> plain_value v | None \<Rightarrow> map_of [] k)"
    by blast
  from look0 have look: "\<forall>k. map_of flat k =
                 (case map_of stored k of Some v \<Rightarrow> plain_value v | None \<Rightarrow> None)"
    by (simp split: option.splits)
  define result where "result = setitem flat ''similarity'' similarity"
  from flatten_fields_serialisable [OF flat assms(7)]
  have "list_all serialisable (map snd flat)" by simp
  with assms(8) have ser: "serialisable (PDict result)"
    by (simp add: result_def setitem_def list_all_snd_update)
  from flat have res: "identify_result (PDict stored) similarity = Inr result"
    by (simp add: identify_result_def ebind_def result_def)
  from assms(1,2,3,4,5) ms its res
  have "identify_try env event =
          ([SearchFacesByImage (search_args env img_bytes), Query (query_args env face_id)],
           Inr (json_response 200 (PDict result)))"
    by (simp add: identify_try_unfold resp_json_response [OF ser])
  then have run: "identify_handler env event =
          ([SearchFacesByImage (search_args env img_bytes), Query (query_args env face_id)],
           Inr (json_response 200 (PDict result)))"
    by (simp add: identify_handler_def on_exception_pair)
  have sim: "map_of result ''similarity'' = Some similarity"
    by (simp add: result_def setitem_def update_conv')
  have other: "\<And>k. k \<noteq> ''similarity'' \<Longrightarrow>
      map_of result k = (case map_of stored k of Some v \<Rightarrow> plain_value v | None \<Rightarrow> None)"
    using look by (simp add: result_def setitem_def update_conv')
  have incl: "includes_record (filter (\<lambda>(k, v). k \<noteq> ''similarity'') stored) (Json (PDict result))"
    unfolding includes_record_iff
  proof (intro ballI)
    fix kv
    assume mem: "kv \<in> set (filter (\<lambda>(k, v). k \<noteq> ''similarity'') stored)"
    obtain k v where kv: "kv = (k, v)" by (cases kv)
    from mem kv have inside: "(k, v) \<in> set stored" and ne: "k \<noteq> ''similarity''"
      by auto
    from inside assms(6) have "map_of stored k = Some v" by simp
    with other [OF ne] have "map_of result k = plain_value v" by simp
    moreover from inside json_fields_plain [OF assms(7)] have "plain_value v \<noteq> None"
      by (auto simp add: list_all_iff)
    ultimately show "case kv of (k, v) \<Rightarrow> plain_value v \<noteq> None \<and> map_of result k = plain_value v"
      using kv by simp
  qed
  from other have none: "\<forall>k. k \<noteq> ''similarity'' \<and> map_of stored k = None \<longrightarrow> map_of result k = None"
    by simp
  from run sim incl none show ?thesis by blast
qed

lemmas identify_eval =
  identify_handler_def identify_try_unfold on_exception_pair demo_eval identify_event_def
  first_match_def first_item_def identify_result_def first_value_def setitem_def
  resp_json_response

theorem identify_found_200_witness:
  "identify_request demo_env identify_event = Inr [65, 66, 67]
   \<and> first_match (PDict [(''FaceMatches'',
         PList [PDict [(''Face'', PDict [(''FaceId'', PStr ''face-1'')]),
                       (''Similarity'', PFloat 97.5)]])])
     = Inr (PStr ''face-1'', PFloat 97.5)
   \<and> first_item (PDict [(''Items'',
         PList [PDict [(''patient_id'', PDict [(''S'', PStr ''P-1'')]),
                       (''face_id'', PDict [(''S'', PStr ''face-1'')]),
                       (''name'', PDict [(''S'', PStr ''A'')])]])])
     = Inr (PDict [(''patient_id'', PDict [(''S'', PStr ''P-1'')]),
                   (''face_id'', PDict [(''S'', PStr ''face-1'')]),
                   (''name'', PDict [(''S'', PStr ''A'')])])
   \<and> json_fields [(''patient_id'', PDict [(''S'', PStr ''P-1'')]),
                   (''face_id'', PDict [(''S'', PStr ''face-1'')]),
                   (''name'', PDict [(''S'', PStr ''A'')])]
   \<and> (\<exists>result.
         snd (identify_handler demo_env identify_event) = Inr (json_response 200 (PDict result))
         \<and> map_of result ''similarity'' = Some (PFloat 97.5)
         \<and> map_of result ''name'' = Some (PStr ''A''))"
proof -
  have req: "identify_request demo_env identify_event = Inr [65, 66, 67]"
    by (simp add: demo_eval identify_event_def)
  have res: "search_faces_by_image demo_env (search_args demo_env [65, 66, 67])
     = Inr (PDict [(''FaceMatches'',
         PList [PDict [(''Face'', PDict [(''FaceId'', PStr ''face-1'')]),
                       (''Similarity'', PFloat 97.5)]])])"
    by (simp add: demo_env_def)
  have match: "first_match (PDict [(''FaceMatches'',
         PList [PDict [(''Face'', PDict [(''FaceId'', PStr ''face-1'')]),
                       (''Similarity'', PFloat 97.5)]])])
     = Inr (PStr ''face-1'', PFloat 97.5)"
    by (simp add: first_match_def ebind_def)
  have q: "query demo_env (query_args demo_env (PStr ''face-1''))
     = Inr (PDict [(''Items'',
         PList [PDict [(''patient_id'', PDict [(''S'', PStr ''P-1'')]),
                       (''face_id'', PDict [(''S'', PStr ''face-1'')]),
                       (''name'', PDict [(''S'', PStr ''A'')])]])])"
    by (simp add: demo_env_def)
  have item: "first_item (PDict [(''Items'',
         PList [PDict [(''patient_id'', PDict [(''S'', PStr ''P-1'')]),
                       (''face_id'', PDict [(''S'', PStr ''face-1'')]),
                       (''name'', PDict [(''S'', PStr ''A'')])]])])
     = Inr (PDict [(''patient_id'', PDict [(''S'', PStr ''P-1'')]),
                   (''face_id'', PDict [(''S'', PStr ''face-1'')]),
                   (''name'', PDict [(''S'', PStr ''A'')])])"
    by (simp add: first_item_def ebind_def)
  have keys: "distinct (map fst [(''patient_id'', PDict [(''S'', PStr ''P-1'')]),
                   (''face_id'', PDict [(''S'', PStr ''face-1'')]),
                   (''name'', PDict [(''S'', PStr ''A'')])])"
    by simp
  have typed: "json_fields [(''patient_id'', PDict [(''S'', PStr ''P-1'')]),
                   (''face_id'', PDict [(''S'', PStr ''face-1'')]),
                   (''name'', PDict [(''S'', PStr ''A'')])]"
    by (simp add: json_fields_def plain_value_def first_value_def ebind_def)
  have score: "serialisable (PFloat 97.5)"
    by simp
  from identify_found_200 [OF req res match q item keys typed score] obtain result where
    "identify_handler demo_env identify_event =
       ([SearchFacesByImage (search_args demo_env [65, 66, 67]),
         Query (query_args demo_env (PStr ''face-1''))],
        Inr (json_response 200 (PDict result)))"
    and "map_of result ''similarity'' = Some (PFloat 97.5)"
    and "includes_record
           (filter (\<lambda>(k, v). k \<noteq> ''similarity'')
             [(''patient_id'', PDict [(''S'', PStr ''P-1'')]),
              (''face_id'', PDict [(''S'', PStr ''face-1'')]),
              (''name'', PDict [(''S'', PStr ''A'')])])
           (Json (PDict result))"
    by blast
  then have "snd (identify_handler demo_env identify_event) = Inr (json_response 200 (PDict result))
         \<and> map_of result ''similarity'' = Some (PFloat 97.5)
         \<and> map_of result ''name'' = Some (PStr ''A'')"
    by (simp add: includes_record_def plain_value_def first_value_def ebind_def)
  with req match item typed show ?thesis by blast
qed

theorem stored_similarity_counterexample:
  "query similarity_env (query_args similarity_env (PStr ''face-1''))
     = Inr (PDict [(''Items'', PList [PDict similarity_record])])
   \<and> identify_handler similarity_env identify_event =
     ([SearchFacesByImage (PDict [(''CollectionId'', PStr ''patients''),
          (''Image'', PDict [(''Bytes'', PBytes [65, 66, 67])]),
          (''FaceMatchThreshold'', PFloat 95),
          (''MaxFaces'', PInt 1)]),
       Query (PDict [(''TableName'', PStr ''patients-table''),
          (''IndexName'', PStr ''face_id-index''),
          (''KeyConditionExpression'', PStr ''face_id = :f''),
          (''ExpressionAttributeValues'', PDict [('':f'', PDict [(''S'', PStr ''face-1'')])]),
          (''Limit'', PInt 1)])],
      Inr \<lparr>statusCode = 200, headers = [(''Content-Type'', ''application/json'')],
           body = Json (PDict [(''patient_id'', PStr ''P-1''), (''face_id'', PStr ''face-1''),
                               (''similarity'', PFloat 97.5)])\<rparr>)
   \<and> map_of similarity_record ''similarity'' = Some (PDict [(''S'', PStr ''high'')])
   \<and> \<not> includes_record similarity_record
          (Json (PDict [(''patient_id'', PStr ''P-1''), (''face_id'', PStr ''face-1''),
                        (''similarity'', PFloat 97.5)]))"
  by (simp add: identify_eval similarity_env_def similarity_record_def includes_record_def
      plain_value_def)

section \<open>An image that does not decode\<close>

lemma a2b_loop_message:
  "a2b_loop s quad_pos leftchar pads bin_data = Inl e \<Longrightarrow> str_exn e \<noteq> []"
  by (induction s quad_pos leftchar pads bin_data rule: a2b_loop.induct)
    (auto split: if_splits option.splits)

lemma b64decode_message: "b64decode v = Inl e \<Longrightarrow> str_exn e \<noteq> []"
  by (cases v) (auto simp add: a2b_base64_def dest: a2b_loop_message split: if_splits)

text \<open>
  C7, as the code has it. \<^verbatim>\<open>base64.b64decode\<close> is called without \<^verbatim>\<open>validate\<close>, so it
  discards the characters outside the alphabet instead of rejecting them. When the body
  parses and holds an \<^verbatim>\<open>image_base64\<close> value that the decoder rejects (it is not a
  string, has a non-ASCII character, or its alphabet characters do not end on a group of
  four), both handlers answer 500 with a non-empty error message and call no
  collaborator. The message is the decoder's, except that registration reports a missing
  \<^verbatim>\<open>patient_id\<close> first.
\<close>

theorem rejected_image_500:
  assumes "request_body env event = Inr payload"
    and "getitem payload ''image_base64'' = Inr image_b64"
    and "b64decode image_b64 = Inl e"
  shows "register_handler env event =
           ([], Inr (json_response 500 (PDict [(''error'',
              PStr (case getitem payload ''patient_id'' of
                      Inl missing \<Rightarrow> str_exn missing
                    | Inr patient_id \<Rightarrow> str_exn e))])))
         \<and> (case getitem payload ''patient_id'' of
               Inl missing \<Rightarrow> str_exn missing
             | Inr patient_id \<Rightarrow> str_exn e) \<noteq> []
         \<and> identify_handler env event =
           ([], Inr (json_response 500 (PDict [(''error'', PStr (str_exn e))])))
         \<and> str_exn e \<noteq> []"
proof -
  from getitem_Inr [OF assms(2)] obtain d where d: "payload = PDict d"
    by blast
  have msg: "str_exn e \<noteq> []"
    using assms(3) by (rule b64decode_message)
  have reg: "register_request env event =
      (case getitem payload ''patient_id'' of Inl missing \<Rightarrow> Inl missing | Inr patient_id \<Rightarrow> Inl e)"
    using assms d by (simp add: register_request_def ebind_def split: sum.splits option.splits)
  have ide: "identify_request env event = Inl e"
    using assms by (simp add: identify_request_def ebind_def)
  have r1: "register_handler env event =
           ([], Inr (json_response 500 (PDict [(''error'',
              PStr (case getitem payload ''patient_id'' of
                      Inl missing \<Rightarrow> str_exn missing
                    | Inr patient_id \<Rightarrow> str_exn e))])))"
    by (simp add: register_handler_def register_try_unfold reg on_exception_pair
        split: sum.splits)
  have r2: "(case getitem payload ''patient_id'' of
               Inl missing \<Rightarrow> str_exn missing
             | Inr patient_id \<Rightarrow> str_exn e) \<noteq> []"
    using msg d by (simp add: quoted_nonempty split: sum.splits option.splits)
  have r3: "identify_handler env event =
           ([], Inr (json_response 500 (PDict [(''error'', PStr (str_exn e))])))"
    by (simp add: identify_handler_def identify_try_unfold ide on_exception_pair)
  from r1 r2 r3 msg show ?thesis by simp
qed

theorem rejected_image_500_witness:
  "request_body demo_env bad_padding_event
     = Inr (PDict [(''image_base64'', PStr ''invalid_base64_data''), (''patient_id'', PStr ''P-1'')])
   \<and> b64decode (PStr ''invalid_base64_data'')
     = Inl (BinasciiError ''Invalid base64-encoded string: number of data characters (17) cannot be 1 more than a multiple of 4'')
   \<and> register_handler demo_env bad_padding_event =
     ([], Inr \<lparr>statusCode = 500, headers = [(''Content-Type'', ''application/json'')],
               body = Json (PDict [(''error'', PStr ''Invalid base64-encoded string: number of data characters (17) cannot be 1 more than a multiple of 4'')])\<rparr>)
   \<and> identify_handler demo_env bad_padding_event =
     ([], Inr \<lparr>statusCode = 500, headers = [(''Content-Type'', ''application/json'')],
               body = Json (PDict [(''error'', PStr ''Invalid base64-encoded string: number of data characters (17) cannot be 1 more than a multiple of 4'')])\<rparr>)"
proof -
  have parsed: "request_body demo_env bad_padding_event
     = Inr (PDict [(''image_base64'', PStr ''invalid_base64_data''), (''patient_id'', PStr ''P-1'')])"
    by (simp add: demo_eval bad_padding_event_def)
  have image: "getitem (PDict [(''image_base64'', PStr ''invalid_base64_data''),
       (''patient_id'', PStr ''P-1'')]) ''image_base64'' = Inr (PStr ''invalid_base64_data'')"
    by simp
  have rejected: "b64decode (PStr ''invalid_base64_data'')
     = Inl (BinasciiError ''Invalid base64-encoded string: number of data characters (17) cannot be 1 more than a multiple of 4'')"
    by (simp add: a2b_base64_def b64_index_def str_int_def digit_char_def)
  from rejected_image_500 [OF parsed image rejected]
  have "register_handler demo_env bad_padding_event =
     ([], Inr \<lparr>statusCode = 500, headers = [(''Content-Type'', ''application/json'')],
               body = Json (PDict [(''error'', PStr ''Invalid base64-encoded string: number of data characters (17) cannot be 1 more than a multiple of 4'')])\<rparr>)
   \<and> identify_handler demo_env bad_padding_event =
     ([], Inr \<lparr>statusCode = 500, headers = [(''Content-Type'', ''application/json'')],
               body = Json (PDict [(''error'', PStr ''Invalid base64-encoded string: number of data characters (17) cannot be 1 more than a multiple of 4'')])\<rparr>)"
    by (simp add: json_response_def)
  with parsed rejected show ?thesis by simp
qed

theorem lenient_decoder_counterexample:
  "\<not> rfc4648_base64 ''QUJD!''
   \<and> request_body no_face_env junk_image_event
     = Inr (PDict [(''image_base64'', PStr ''QUJD!''), (''patient_id'', PStr ''P-1'')])
   \<and> b64decode (PStr ''QUJD!'') = Inr [65, 66, 67]
   \<and> snd (register_handler no_face_env junk_image_event)
     = Inr \<lparr>statusCode = 422, headers = [(''Content-Type'', ''application/json'')],
            body = Json (PDict [(''message'', PStr ''No face detected or poor quality.'')])\<rparr>
   \<and> snd (identify_handler no_match_env junk_image_event)
     = Inr \<lparr>statusCode = 404, headers = [(''Content-Type'', ''application/json'')],
            body = Json (PDict [(''message'', PStr ''No confident match'')])\<rparr>"
  by (simp add: rfc4648_base64_def register_handler_def register_try_unfold identify_handler_def
      identify_try_unfold on_exception_pair demo_eval junk_image_event_def no_face_env_def
      no_match_env_def resp_json_response)

end
